theory Spec2Isabelle
  imports Complex_Main
begin

section \<open>JavaScript values and library functions\<close>

text \<open>
  An awaited call either yields a value or rejects with an \<open>Error\<close>; the rejection is
  \<open>Inl\<close> of the error's message, as is a \<open>throw\<close> that leaves a function.
\<close>

type_synonym 'a outcome = "string + 'a"

text \<open>
  The functions imported from the \<open>viem\<close> package are not part of the repository and are
  taken as parameters: \<open>isAddress\<close>, and the composition
  \<open>parseFloat(formatEther(v))\<close> that turns an amount in the smallest denomination into a
  JavaScript number. Every theorem below holds for every choice of the two.

  JavaScript numbers are modelled as \<open>int\<close> where the source computes with integers
  (scores, counts, timestamps: all far below \<open>2^53\<close>, where doubles are exact, so that
  \<open>Math.round\<close> is the identity on them) and as \<open>real\<close> for the amounts in native units
  and the random draws. The thresholds \<open>0.1\<close> are the real \<open>1/10\<close>, not the nearest
  double; no theorem below depends on the difference.
\<close>

record viem =
  isAddress :: "string \<Rightarrow> bool"
  parseFloat_formatEther :: "nat \<Rightarrow> real"

text \<open>\<open>String.prototype.toLowerCase\<close> on the ASCII letters.\<close>

definition lower_char :: "char \<Rightarrow> char" where
  "lower_char c =
     (case map_of (zip ''ABCDEFGHIJKLMNOPQRSTUVWXYZ'' ''abcdefghijklmnopqrstuvwxyz'') c of
        Some l \<Rightarrow> l
      | None \<Rightarrow> c)"

definition toLowerCase :: "string \<Rightarrow> string" where
  "toLowerCase s = map lower_char s"

text \<open>\<open>String.prototype.startsWith\<close> and \<open>String.prototype.includes\<close>.\<close>

fun startsWith :: "string \<Rightarrow> string \<Rightarrow> bool" where
  "startsWith s [] = True"
| "startsWith [] (p # ps) = False"
| "startsWith (c # cs) (p # ps) = (c = p \<and> startsWith cs ps)"

fun includes_str :: "string \<Rightarrow> string \<Rightarrow> bool" where
  "includes_str [] pat = (pat = [])"
| "includes_str (c # cs) pat = (startsWith (c # cs) pat \<or> includes_str cs pat)"

text \<open>Decimal rendering of an integer inside a template literal.\<close>

definition digit :: "nat \<Rightarrow> char" where
  "digit n = ''0123456789'' ! n"

fun show_nat :: "nat \<Rightarrow> string" where
  "show_nat n = (if n < 10 then [digit n] else show_nat (n div 10) @ [digit (n mod 10)])"

declare show_nat.simps [simp del]

definition show_int :: "int \<Rightarrow> string" where
  "show_int i = (if i < 0 then CHR ''-'' # show_nat (nat (- i)) else show_nat (nat i))"

text \<open>\<open>Array.prototype.join\<close>.\<close>

fun join :: "string list \<Rightarrow> string \<Rightarrow> string" where
  "join [] sep = []"
| "join [x] sep = x"
| "join (x # y # ys) sep = x @ sep @ join (y # ys) sep"

text \<open>
  \<open>Promise.all\<close> over already settled calls: the tuple of the values, or a rejection when
  one of them rejected (taken in array order).
\<close>

definition promise_all2 :: "'a outcome \<Rightarrow> 'b outcome \<Rightarrow> ('a \<times> 'b) outcome" where
  "promise_all2 a b =
     (case a of Inl e \<Rightarrow> Inl e | Inr x \<Rightarrow>
      (case b of Inl e \<Rightarrow> Inl e | Inr y \<Rightarrow> Inr (x, y)))"

definition promise_all4 ::
  "'a outcome \<Rightarrow> 'b outcome \<Rightarrow> 'c outcome \<Rightarrow> 'd outcome \<Rightarrow> ('a \<times> 'b \<times> 'c \<times> 'd) outcome" where
  "promise_all4 a b c d =
     (case a of Inl e \<Rightarrow> Inl e | Inr x \<Rightarrow>
      (case promise_all2 b (promise_all2 c d) of
         Inl e \<Rightarrow> Inl e
       | Inr (y, z, w) \<Rightarrow> Inr (x, y, z, w)))"


section \<open>Risk scoring (backend/services/riskScoring.js)\<close>

definition KNOWN_RISKY_CONTRACTS :: "string list" where
  "KNOWN_RISKY_CONTRACTS =
     [''0x000000000000000000000000000000000000dead'',
      ''0xffffffffffffffffffffffffffffffffffffffff'',
      ''0x1234567890123456789012345678901234567890'']"

record reputation =
  risk :: int
  category :: string

definition CONTRACT_REPUTATION :: "(string \<times> reputation) list" where
  "CONTRACT_REPUTATION =
     [(''0x742e4c4b6e7d2a27d7a5a5e5e5b5a5e5e5b5a5e5e'', \<lparr>risk = 20, category = ''DeFi''\<rparr>),
      (''0x852e4c4b6e7d2a27d7a5a5e5e5b5a5e5e5b5a5e5e'', \<lparr>risk = 60, category = ''Gambling''\<rparr>),
      (''0x962e4c4b6e7d2a27d7a5a5e5e5b5a5e5e5b5a5e5e'', \<lparr>risk = 80, category = ''High-Risk''\<rparr>)]"

subsection \<open>Helpers\<close>

text \<open>
  \<open>provider\<close> is a viem public client. Its \<open>getCode\<close> resolves to the bytecode as a hex
  string, or to \<open>undefined\<close> for an address that has no code: \<open>None\<close> is
  \<open>undefined\<close>. The type leaves room for a client that answers the string \<open>0x\<close>
  instead, which is what the comparisons of the source are written for.
\<close>

type_synonym bytecode = "string option"

text \<open>
  Reading \<open>code.length\<close> when \<open>code\<close> is \<open>undefined\<close> throws a \<open>TypeError\<close>; this is
  its message.
\<close>

definition undefined_length :: string where
  "undefined_length = ''Cannot read properties of undefined (reading 'length')''"

text \<open>
  \<open>isContractAddress\<close> awaits \<open>provider.getCode\<close> inside a \<open>try\<close>; its argument here is the
  outcome of that call. \<open>undefined !== "0x"\<close> is true.
\<close>

definition isContractAddress :: "bytecode outcome \<Rightarrow> bool" where
  "isContractAddress r = (case r of Inr code \<Rightarrow> code \<noteq> Some ''0x'' | Inl e \<Rightarrow> False)"

text \<open>
  \<open>checkRiskyInteractions\<close> draws \<open>Math.random()\<close> once per entry of the list;
  \<open>rnd i\<close> is the \<open>i\<close>-th draw.
\<close>

definition checkRiskyInteractions :: "(nat \<Rightarrow> real) \<Rightarrow> string list" where
  "checkRiskyInteractions rnd =
     map snd (filter (\<lambda>(i, riskyContract). rnd i < 1 / 10)
                (enumerate 0 KNOWN_RISKY_CONTRACTS))"

record code_risk =
  cr_score :: int
  cr_factors :: "string list"
  cr_hasComplexLogic :: bool
  cr_potentialRisks :: "string list"

definition analyzeContractCode :: "string \<Rightarrow> code_risk" where
  "analyzeContractCode code =
     (let (score0, factors0) = (0, []);
          (score1, factors1) =
            (if length code > 10000 then (score0 + 10, factors0 @ [''Large contract code''])
             else (score0, factors0));
          (score2, factors2) =
            (if includes_str code ''delegatecall''
             then (score1 + 20, factors1 @ [''Uses delegatecall - potential proxy risk''])
             else (score1, factors1));
          (score3, factors3) =
            (if includes_str code ''selfdestruct''
             then (score2 + 25, factors2 @ [''Contains selfdestruct function''])
             else (score2, factors2))
      in \<lparr>cr_score = score3, cr_factors = factors3,
          cr_hasComplexLogic = (length code > 5000), cr_potentialRisks = factors3\<rparr>)"

definition analyzeCodeComplexity :: "string \<Rightarrow> string" where
  "analyzeCodeComplexity code =
     (let size = length code in
      if size < 1000 then ''Low'' else if size < 5000 then ''Medium'' else ''High'')"

definition getRiskLevel :: "int \<Rightarrow> string" where
  "getRiskLevel score =
     (if score \<ge> 70 then ''High'' else if score \<ge> 30 then ''Medium'' else ''Low'')"

definition generateRecommendations :: "int \<Rightarrow> string list \<Rightarrow> string list" where
  "generateRecommendations score factors =
     (let r0 =
        (if score \<ge> 70 then
           [''Consider using a hardware wallet'', ''Review all token approvals'',
            ''Enable transaction monitoring'']
         else if score \<ge> 30 then
           [''Monitor wallet activity regularly'', ''Review token approvals monthly'',
            ''Consider multi-signature for large holdings'']
         else
           [''Continue current security practices'', ''Keep software updated'',
            ''Use strong password and 2FA'']);
          r1 = (if ''No transaction history'' \<in> set factors
                then r0 @ [''Consider making a test transaction first''] else r0);
          r2 = (if ''High balance'' \<in> set factors
                then r1 @ [''Diversify assets across multiple wallets''] else r1)
      in r2)"

subsection \<open>scoreWallet\<close>

text \<open>The three local variables that the body of \<open>scoreWallet\<close> updates.\<close>

record scoring =
  riskScore :: int
  riskFactors :: "string list"
  warnings :: "string list"

text \<open>
  The outcomes of the four provider calls of \<open>scoreWallet\<close>, in the order of the array;
  the third is the \<open>getCode\<close> call made inside \<open>isContractAddress\<close>.
\<close>

record wallet_rpc =
  w_getBalance :: "nat outcome"
  w_getTransactionCount :: "nat outcome"
  w_isContract_getCode :: "bytecode outcome"
  w_getCode :: "bytecode outcome"

record wallet_details =
  d_balance :: real
  d_transactionCount :: nat
  d_isContract :: bool
  d_riskyInteractions :: nat
  d_codeComplexity :: "string option"

record wallet_assessment =
  wa_riskScore :: int
  wa_riskLevel :: string
  wa_factors :: "string list"
  wa_warnings :: "string list"
  wa_details :: wallet_details
  wa_recommendations :: "string list"

text \<open>Balance analysis: an \<open>if\<close> / \<open>else if\<close> on the balance in native units.\<close>

definition balanceAnalysis :: "real \<Rightarrow> scoring \<Rightarrow> scoring" where
  "balanceAnalysis balanceEth s =
     (if balanceEth = 0 then
        s\<lparr>riskScore := riskScore s + 10, riskFactors := riskFactors s @ [''Zero balance'']\<rparr>
      else if balanceEth > 10 then
        s\<lparr>riskScore := riskScore s + 15, riskFactors := riskFactors s @ [''High balance'']\<rparr>
      else s)"

text \<open>Transaction history: an \<open>if\<close> / \<open>else if\<close> on the transaction count.\<close>

definition transactionHistory :: "nat \<Rightarrow> scoring \<Rightarrow> scoring" where
  "transactionHistory txCount s =
     (if txCount = 0 then
        s\<lparr>riskScore := riskScore s + 20,
          riskFactors := riskFactors s @ [''No transaction history''],
          warnings := warnings s @ [''Wallet appears to be new or inactive'']\<rparr>
      else if txCount < 3 then
        s\<lparr>riskScore := riskScore s + 10,
          riskFactors := riskFactors s @ [''Low transaction count'']\<rparr>
      else s)"

definition contractCheck :: "bool \<Rightarrow> scoring \<Rightarrow> scoring" where
  "contractCheck isContract s =
     (if isContract then
        s\<lparr>riskScore := riskScore s - 10, riskFactors := riskFactors s @ [''Contract address'']\<rparr>
      else s)"

definition contractCodeRisk :: "bool \<Rightarrow> string \<Rightarrow> scoring \<Rightarrow> scoring" where
  "contractCodeRisk isContract code s =
     (if isContract \<and> code \<noteq> ''0x'' then
        (let codeRisk = analyzeContractCode code in
         s\<lparr>riskScore := riskScore s + cr_score codeRisk,
           riskFactors := riskFactors s @ cr_factors codeRisk\<rparr>)
      else s)"

definition riskyInteractions :: "string list \<Rightarrow> scoring \<Rightarrow> scoring" where
  "riskyInteractions interactions s =
     (if length interactions > 0 then
        s\<lparr>riskScore := riskScore s + int (length interactions) * 15,
          riskFactors := riskFactors s @
            [''Interacted with '' @ show_nat (length interactions) @ '' risky contracts''],
          warnings := warnings s @
            [''Found interactions with risky contracts: '' @ join interactions '', '']\<rparr>
      else s)"

text \<open>
  The statements of \<open>scoreWallet\<close> between the provider calls and the clamp, in source
  order, starting from \<open>riskScore = 50\<close>.
\<close>

definition walletScoring :: "real \<Rightarrow> nat \<Rightarrow> bool \<Rightarrow> string \<Rightarrow> string list \<Rightarrow> scoring" where
  "walletScoring balanceEth txCount isContract code interactions =
     riskyInteractions interactions
       (contractCodeRisk isContract code
          (contractCheck isContract
             (transactionHistory txCount
                (balanceAnalysis balanceEth
                   \<lparr>riskScore = 50, riskFactors = [], warnings = []\<rparr>))))"

text \<open>The object that \<open>scoreWallet\<close> returns, from the values of its local variables.\<close>

definition walletAssessment ::
  "real \<Rightarrow> nat \<Rightarrow> bool \<Rightarrow> string option \<Rightarrow> string list \<Rightarrow> scoring \<Rightarrow> wallet_assessment" where
  "walletAssessment balanceEth txCount isContract codeComplexity interactions s =
     (let clamped = max 0 (min 100 (riskScore s))
      in \<lparr>wa_riskScore = clamped,
          wa_riskLevel = getRiskLevel clamped,
          wa_factors = riskFactors s,
          wa_warnings = warnings s,
          wa_details =
            \<lparr>d_balance = balanceEth, d_transactionCount = txCount,
             d_isContract = isContract,
             d_riskyInteractions = length interactions,
             d_codeComplexity = codeComplexity\<rparr>,
          wa_recommendations = generateRecommendations clamped (riskFactors s)\<rparr>)"

text \<open>
  When \<open>code\<close> is a string the body runs through. When it is \<open>undefined\<close> and
  \<open>isContract\<close> is true, the test \<open>isContract && code !== "0x"\<close> holds and
  \<open>analyzeContractCode(code)\<close> throws on \<open>code.length\<close>; the \<open>catch\<close> rethrows. When it is
  \<open>undefined\<close> and \<open>isContract\<close> is false, the code-risk statement is skipped and
  \<open>code\<close> is never read.
\<close>

definition scoreWallet ::
  "viem \<Rightarrow> (nat \<Rightarrow> real) \<Rightarrow> wallet_rpc \<Rightarrow> string \<Rightarrow> wallet_assessment outcome" where
  "scoreWallet lib rnd rpc address =
     (if \<not> isAddress lib address then Inl ''Failed to score wallet: Invalid wallet address''
      else
        case promise_all4 (w_getBalance rpc) (w_getTransactionCount rpc)
               (Inr (isContractAddress (w_isContract_getCode rpc))) (w_getCode rpc) of
          Inl msg \<Rightarrow> Inl (''Failed to score wallet: '' @ msg)
        | Inr (balance, txCount, isContract, code) \<Rightarrow>
            (let balanceEth = parseFloat_formatEther lib balance;
                 interactions = checkRiskyInteractions rnd
             in case code of
                  Some c \<Rightarrow>
                    Inr (walletAssessment balanceEth txCount isContract
                           (if isContract then Some (analyzeCodeComplexity c) else None)
                           interactions
                           (walletScoring balanceEth txCount isContract c interactions))
                | None \<Rightarrow>
                    if isContract then Inl (''Failed to score wallet: '' @ undefined_length)
                    else
                      Inr (walletAssessment balanceEth txCount isContract None interactions
                             (riskyInteractions interactions
                                (contractCheck isContract
                                   (transactionHistory txCount
                                      (balanceAnalysis balanceEth
                                         \<lparr>riskScore = 50, riskFactors = [],
                                          warnings = []\<rparr>)))))))"

subsection \<open>scoreContract\<close>

text \<open>
  The outcomes of the two provider calls of \<open>scoreContract\<close>: the \<open>getCode\<close> of the array
  and the one made inside \<open>isContractAddress\<close>.
\<close>

record contract_rpc =
  c_getCode :: "bytecode outcome"
  c_isContract_getCode :: "bytecode outcome"

record contract_analysis =
  an_codeSize :: nat
  an_hasComplexLogic :: bool
  an_potentialRisks :: "string list"

record contract_assessment =
  ca_contract :: string
  ca_score :: int
  ca_riskLevel :: string
  ca_reasons :: "string list"
  ca_verified :: bool
  ca_analysis :: "contract_analysis option"

text \<open>
  After the early return, \<open>analyzeContractCode(code)\<close> reads \<open>code.length\<close>: it throws
  when \<open>code\<close> is \<open>undefined\<close>, and the \<open>catch\<close> rethrows.
\<close>

definition scoreContract :: "viem \<Rightarrow> contract_rpc \<Rightarrow> string \<Rightarrow> contract_assessment outcome" where
  "scoreContract lib rpc contractAddress =
     (if \<not> isAddress lib contractAddress
      then Inl ''Failed to score contract: Invalid contract address''
      else
        case promise_all2 (c_getCode rpc) (Inr (isContractAddress (c_isContract_getCode rpc))) of
          Inl msg \<Rightarrow> Inl (''Failed to score contract: '' @ msg)
        | Inr (codeRead, isContract) \<Rightarrow>
            if \<not> isContract \<or> codeRead = Some ''0x'' then
              Inr \<lparr>ca_contract = contractAddress, ca_score = 0, ca_riskLevel = ''Unknown'',
                   ca_reasons = [''Not a contract or no code''], ca_verified = False,
                   ca_analysis = None\<rparr>
            else
              case codeRead of
                None \<Rightarrow> Inl (''Failed to score contract: '' @ undefined_length)
              | Some code \<Rightarrow>
                  (let analysis = analyzeContractCode code;
                       riskScore0 = 50 + cr_score analysis;
                       reasons0 = cr_factors analysis;
                       lowerAddress = toLowerCase contractAddress;
                       (riskScore1, reasons1) =
                         (if lowerAddress \<in> set KNOWN_RISKY_CONTRACTS then
                            (100, reasons0 @ [''Flagged as known risky contract''])
                          else
                            case map_of CONTRACT_REPUTATION lowerAddress of
                              Some reputation \<Rightarrow>
                                (max riskScore0 (risk reputation),
                                 reasons0 @ [''Categorized as '' @ category reputation])
                            | None \<Rightarrow> (riskScore0, reasons0));
                       clamped = max 0 (min 100 riskScore1)
                   in Inr \<lparr>ca_contract = contractAddress, ca_score = clamped,
                           ca_riskLevel = getRiskLevel clamped, ca_reasons = reasons1,
                           ca_verified = False,
                           ca_analysis =
                             Some \<lparr>an_codeSize = length code,
                                   an_hasComplexLogic = cr_hasComplexLogic analysis,
                                   an_potentialRisks = cr_potentialRisks analysis\<rparr>\<rparr>))"

subsection \<open>analyzeTransaction\<close>

text \<open>
  The fields of \<open>txData\<close>; \<open>None\<close> is a field that is absent. The value is a
  \<open>bigint\<close> amount in the smallest denomination.
\<close>

record txData =
  tx_from :: string
  tx_to :: string
  tx_value :: "nat option"
  tx_data :: "string option"

text \<open>
  The outcome of the \<open>getCode\<close> call of \<open>isContractAddress(to)\<close>, and the outcomes of
  the two calls that \<open>scoreContract(to)\<close> makes when it runs.
\<close>

record tx_rpc =
  t_isContract_getCode :: "bytecode outcome"
  t_scoreContract :: contract_rpc

record tx_analysis =
  ta_valueRisk :: "string option"
  ta_isContractInteraction :: "bool option"
  ta_contractRisk :: "contract_assessment option"
  ta_hasCalldata :: "bool option"

record tx_assessment =
  tr_riskScore :: int
  tr_riskLevel :: string
  tr_warnings :: "string list"
  tr_analysis :: tx_analysis
  tr_shouldProceed :: bool
  tr_recommendations :: "string list"

record tx_scoring =
  ts_riskScore :: int
  ts_warnings :: "string list"
  ts_analysis :: tx_analysis

definition valueAnalysis :: "viem \<Rightarrow> nat option \<Rightarrow> tx_scoring \<Rightarrow> tx_scoring" where
  "valueAnalysis lib v s =
     (case v of
        None \<Rightarrow> s
      | Some val \<Rightarrow>
          if val > 0 then
            (let valueEth = parseFloat_formatEther lib val in
             if valueEth > 1 then
               s\<lparr>ts_riskScore := ts_riskScore s + 20,
                 ts_warnings := ts_warnings s @ [''High value transaction''],
                 ts_analysis := (ts_analysis s)\<lparr>ta_valueRisk := Some ''High''\<rparr>\<rparr>
             else if valueEth > 1 / 10 then
               s\<lparr>ts_riskScore := ts_riskScore s + 10,
                 ts_analysis := (ts_analysis s)\<lparr>ta_valueRisk := Some ''Medium''\<rparr>\<rparr>
             else s)
          else s)"

definition contractInteraction ::
  "viem \<Rightarrow> tx_rpc \<Rightarrow> string \<Rightarrow> tx_scoring \<Rightarrow> tx_scoring outcome" where
  "contractInteraction lib rpc to s =
     (if isContractAddress (t_isContract_getCode rpc) then
        (case scoreContract lib (t_scoreContract rpc) to of
           Inl msg \<Rightarrow> Inl msg
         | Inr contractScore \<Rightarrow>
             Inr (s\<lparr>ts_riskScore :=
                       ts_riskScore s + 15 + max 0 (ca_score contractScore - 50),
                     ts_warnings :=
                       (if ca_score contractScore > 70 then
                          ts_warnings s @
                            [''Interacting with high-risk contract (score: '' @
                               show_int (ca_score contractScore) @ '')'']
                        else ts_warnings s),
                     ts_analysis :=
                       (ts_analysis s)\<lparr>ta_isContractInteraction := Some True,
                                        ta_contractRisk := Some contractScore\<rparr>\<rparr>))
      else Inr s)"

definition calldataAnalysis :: "string option \<Rightarrow> tx_scoring \<Rightarrow> tx_scoring" where
  "calldataAnalysis d s =
     (case d of
        None \<Rightarrow> s
      | Some dat \<Rightarrow>
          if dat \<noteq> [] \<and> dat \<noteq> ''0x'' then
            (let s1 = s\<lparr>ts_riskScore := ts_riskScore s + 10,
                        ts_analysis := (ts_analysis s)\<lparr>ta_hasCalldata := Some True\<rparr>\<rparr>
             in if length dat > 100 then
                  s1\<lparr>ts_riskScore := ts_riskScore s1 + 5,
                     ts_warnings := ts_warnings s1 @ [''Complex contract call detected'']\<rparr>
                else s1)
          else s)"

definition analyzeTransaction :: "viem \<Rightarrow> tx_rpc \<Rightarrow> txData \<Rightarrow> tx_assessment outcome" where
  "analyzeTransaction lib rpc tx =
     (let s0 = \<lparr>ts_riskScore = 0, ts_warnings = [],
                ts_analysis = \<lparr>ta_valueRisk = None, ta_isContractInteraction = None,
                               ta_contractRisk = None, ta_hasCalldata = None\<rparr>\<rparr>;
          s1 = valueAnalysis lib (tx_value tx) s0
      in case contractInteraction lib rpc (tx_to tx) s1 of
           Inl msg \<Rightarrow> Inl (''Failed to analyze transaction: '' @ msg)
         | Inr s2 \<Rightarrow>
             (let s3 = calldataAnalysis (tx_data tx) s2;
                  clamped = max 0 (min 100 (ts_riskScore s3))
              in Inr \<lparr>tr_riskScore = clamped,
                      tr_riskLevel = getRiskLevel clamped,
                      tr_warnings = ts_warnings s3,
                      tr_analysis = ts_analysis s3,
                      tr_shouldProceed = (clamped < 70),
                      tr_recommendations =
                        (if clamped \<ge> 70 then
                           [''Review transaction carefully'', ''Verify contract address'',
                            ''Consider using a different wallet for this transaction'']
                         else
                           [''Transaction appears safe'',
                            ''Always verify addresses before confirming''])\<rparr>))"


section \<open>Shared helpers and constants (backend/utils)\<close>

definition MAX_DELEGATION_DURATION :: int where
  "MAX_DELEGATION_DURATION = 30 * 24 * 60 * 60"

definition MIN_DELEGATION_DURATION :: int where
  "MIN_DELEGATION_DURATION = 1 * 60 * 60"

definition RISK_THRESHOLDS_LOW :: int where "RISK_THRESHOLDS_LOW = 30"

definition RISK_THRESHOLDS_MEDIUM :: int where "RISK_THRESHOLDS_MEDIUM = 70"

definition RISK_THRESHOLDS_HIGH :: int where "RISK_THRESHOLDS_HIGH = 90"

definition isValidAddress :: "viem \<Rightarrow> string \<Rightarrow> bool" where
  "isValidAddress lib address = isAddress lib address"

text \<open>
  \<open>validateDelegationParams(user, contract, expiresAt)\<close>; \<open>now\<close> is the value of
  \<open>Math.floor(Date.now() / 1000)\<close> that the function reads.
\<close>

definition validateDelegationParams :: "viem \<Rightarrow> int \<Rightarrow> string \<Rightarrow> string \<Rightarrow> int \<Rightarrow> string list" where
  "validateDelegationParams lib now user contract expires =
     (let errors0 = [];
          errors1 = (if \<not> isValidAddress lib user
                     then errors0 @ [''Invalid user address''] else errors0);
          errors2 = (if \<not> isValidAddress lib contract
                     then errors1 @ [''Invalid contract address''] else errors1);
          errors3 = (if expires \<le> now
                     then errors2 @ [''Expiration must be in the future''] else errors2);
          errors4 = (if expires > now + MAX_DELEGATION_DURATION
                     then errors3 @
                       [''Delegation duration cannot exceed '' @
                          show_int (MAX_DELEGATION_DURATION div (24 * 60 * 60)) @ '' days'']
                     else errors3)
      in errors4)"

text \<open>The \<open>getRiskLevel\<close> exported by helpers.js, which reads \<open>RISK_THRESHOLDS\<close>.\<close>

definition helpers_getRiskLevel :: "int \<Rightarrow> string" where
  "helpers_getRiskLevel score =
     (if score \<ge> RISK_THRESHOLDS_HIGH then ''High''
      else if score \<ge> RISK_THRESHOLDS_MEDIUM then ''Medium''
      else ''Low'')"


section \<open>Delegation routes\<close>

record delegation =
  userAddress :: string
  contractAddress :: string
  expiresAt :: int
  description :: string
  addedAt :: int
  isActive :: bool

text \<open>
  \<open>delegationsDB\<close> is a JavaScript \<open>Map\<close> with string keys. It iterates in insertion
  order, and \<open>set\<close> on a key that is present replaces the value in place.
\<close>

type_synonym delegationsDB = "(string \<times> delegation) list"

definition map_has :: "('k \<times> 'v) list \<Rightarrow> 'k \<Rightarrow> bool" where
  "map_has m k = (k \<in> fst ` set m)"

fun map_set :: "('k \<times> 'v) list \<Rightarrow> 'k \<Rightarrow> 'v \<Rightarrow> ('k \<times> 'v) list" where
  "map_set [] k v = [(k, v)]"
| "map_set ((k', v') # kvs) k v =
     (if k' = k then (k, v) # kvs else (k', v') # map_set kvs k v)"

definition map_delete :: "('k \<times> 'v) list \<Rightarrow> 'k \<Rightarrow> ('k \<times> 'v) list" where
  "map_delete m k = filter (\<lambda>(k', v). k' \<noteq> k) m"

text \<open>
  What a handler does to the local store and to the on-chain contract, in the order in
  which it does it.
\<close>

datatype effect =
    LocalSet string delegation
  | LocalDelete string
  | LocalScan
  | RemoteAddDelegation string string int string
  | RemoteWaitForReceipt string
  | RemoteRemoveDelegation string string
  | RemoteGetActiveDelegations string

fun is_remote :: "effect \<Rightarrow> bool" where
  "is_remote (RemoteAddDelegation u c d descr) = True"
| "is_remote (RemoteWaitForReceipt h) = True"
| "is_remote (RemoteRemoveDelegation u c) = True"
| "is_remote (RemoteGetActiveDelegations u) = True"
| "is_remote e = False"

text \<open>
  The object sent for one delegation. The field \<open>description\<close> is absent from the answer
  to an add, and \<open>isActive\<close> is present only for entries read from the contract by the
  delegation route.
\<close>

record delegation_view =
  v_contractAddr :: string
  v_expiresAt :: int
  v_expiresIn :: string
  v_status :: string
  v_description :: "string option"
  v_addedAt :: int
  v_isActive :: "bool option"

subsection \<open>POST /api/delegation\<close>

text \<open>
  A field of the request body is \<open>None\<close> when it is absent. The duration is a number of
  hours.
\<close>

record add_request =
  r_userAddress :: "string option"
  r_contractAddress :: "string option"
  r_duration :: int
  r_description :: "string option"

text \<open>
  Whether the two client handles are set, and the outcomes of the contract write and of
  the wait for its receipt (a block number).
\<close>

record add_remote =
  ad_smartGuardContract :: bool
  ad_walletClient :: bool
  ad_write_addDelegation :: "string outcome"
  ad_waitForTransactionReceipt :: "nat outcome"

record add_response =
  ar_status :: nat
  ar_success :: bool
  ar_message :: string
  ar_delegation :: "delegation_view option"

text \<open>\<open>description || d\<close>: the default replaces an absent or empty description.\<close>

definition or_default :: "string option \<Rightarrow> string \<Rightarrow> string" where
  "or_default v d = (case v of None \<Rightarrow> d | Some s \<Rightarrow> if s = [] then d else s)"

text \<open>
  The handler reads the clock three times; the three readings are taken to be the same
  second \<open>now\<close>. With the fields typed as above nothing in the body throws outside the
  inner \<open>try\<close>, so the answer with status 500 does not occur.
\<close>

definition addDelegation ::
  "int \<Rightarrow> add_remote \<Rightarrow> delegationsDB \<Rightarrow> add_request \<Rightarrow> delegationsDB \<times> effect list \<times> add_response" where
  "addDelegation now remote db req =
     (case (r_userAddress req, r_contractAddress req) of
        (Some user, Some contract) \<Rightarrow>
          if user = [] \<or> contract = [] then
            (db, [], \<lparr>ar_status = 400, ar_success = False,
                      ar_message = ''User address and contract address are required'',
                      ar_delegation = None\<rparr>)
          else
            (let expires = now + r_duration req * 3600;
                 key = user @ ''-'' @ contract;
                 stored = \<lparr>userAddress = user, contractAddress = contract,
                            expiresAt = expires,
                            description = or_default (r_description req) ''No description'',
                            addedAt = now, isActive = True\<rparr>;
                 db' = map_set db key stored;
                 remote_effects =
                   (if ad_smartGuardContract remote \<and> ad_walletClient remote then
                      RemoteAddDelegation user contract (r_duration req * 3600)
                          (or_default (r_description req) []) #
                      (case ad_write_addDelegation remote of
                         Inl msg \<Rightarrow> []
                       | Inr hash \<Rightarrow> [RemoteWaitForReceipt hash])
                    else [])
             in (db', LocalSet key stored # remote_effects,
                 \<lparr>ar_status = 200, ar_success = True,
                  ar_message = ''Delegation added successfully'',
                  ar_delegation =
                    Some \<lparr>v_contractAddr = contract, v_expiresAt = expires,
                          v_expiresIn = show_int (r_duration req) @ ''h'',
                          v_status = ''Active'', v_description = None,
                          v_addedAt = now, v_isActive = None\<rparr>\<rparr>))
      | _ \<Rightarrow>
          (db, [], \<lparr>ar_status = 400, ar_success = False,
                    ar_message = ''User address and contract address are required'',
                    ar_delegation = None\<rparr>))"

subsection \<open>GET /api/delegation/:userAddress\<close>

text \<open>An entry of the array that the contract's \<open>getActiveDelegations\<close> returns.\<close>

record plan =
  p_contractAddr :: string
  p_expiresAt :: int
  p_addedAt :: int
  p_description :: string
  p_isActive :: bool

record list_remote =
  ls_smartGuardContract :: bool
  ls_getActiveDelegations :: "plan list outcome"

record list_response =
  lr_status :: nat
  lr_success :: bool
  lr_message :: "string option"
  lr_delegations :: "delegation_view list"
  lr_source :: "string option"
  lr_total :: nat
  lr_active :: nat
  lr_expired :: nat

definition ZERO_ADDRESS :: string where
  "ZERO_ADDRESS = ''0x0000000000000000000000000000000000000000''"

text \<open>The mapping applied to every entry read from the contract.\<close>

definition planView :: "int \<Rightarrow> plan \<Rightarrow> delegation_view" where
  "planView now p =
     (let expires = p_expiresAt p;
          expiresIn = expires - now
      in \<lparr>v_contractAddr = p_contractAddr p, v_expiresAt = expires,
          v_expiresIn =
            (if expiresIn > 0 then
               show_int (expiresIn div 3600) @ ''h '' @
               show_int ((expiresIn mod 3600) div 60) @ ''m''
             else ''Expired''),
          v_status = (if expiresIn > 0 then ''Active'' else ''Expired''),
          v_description = Some (p_description p), v_addedAt = p_addedAt p,
          v_isActive = Some (p_isActive p)\<rparr>)"

definition contractViews :: "int \<Rightarrow> plan list \<Rightarrow> delegation_view list" where
  "contractViews now contractPlans =
     filter (\<lambda>d. v_contractAddr d \<noteq> ZERO_ADDRESS) (map (planView now) contractPlans)"

text \<open>The object pushed for an entry of the in-memory store.\<close>

definition memoryView :: "int \<Rightarrow> delegation \<Rightarrow> delegation_view" where
  "memoryView now d =
     (let expiresIn = expiresAt d - now
      in \<lparr>v_contractAddr = contractAddress d, v_expiresAt = expiresAt d,
          v_expiresIn =
            (if expiresIn > 0 then show_int (expiresIn div 3600) @ ''h'' else ''Expired''),
          v_status = (if expiresIn > 0 then ''Active'' else ''Expired''),
          v_description = Some (description d), v_addedAt = addedAt d,
          v_isActive = None\<rparr>)"

text \<open>The loop over \<open>delegationsDB\<close> of the fallback.\<close>

definition memoryViews :: "int \<Rightarrow> delegationsDB \<Rightarrow> string \<Rightarrow> delegation_view list" where
  "memoryViews now db user =
     map (\<lambda>(key, d). memoryView now d)
       (filter (\<lambda>(key, d). startsWith key user \<and> isActive d) db)"

text \<open>
  The clock readings of one request are taken to be the same second \<open>now\<close>. The handler
  returns the store as it leaves it.
\<close>

definition listDelegations ::
  "viem \<Rightarrow> int \<Rightarrow> list_remote \<Rightarrow> delegationsDB \<Rightarrow> string \<Rightarrow> delegationsDB \<times> effect list \<times> list_response" where
  "listDelegations lib now remote db user =
     (if \<not> isAddress lib user then
        (db, [], \<lparr>lr_status = 400, lr_success = False,
                  lr_message = Some ''Invalid wallet address'', lr_delegations = [],
                  lr_source = None, lr_total = 0, lr_active = 0, lr_expired = 0\<rparr>)
      else
        (let (delegations0, source0, effects0) =
               (if ls_smartGuardContract remote then
                  (case ls_getActiveDelegations remote of
                     Inr contractPlans \<Rightarrow>
                       (contractViews now contractPlans, ''contract'',
                        [RemoteGetActiveDelegations user])
                   | Inl msg \<Rightarrow> ([], ''memory'', [RemoteGetActiveDelegations user]))
                else ([], ''memory'', []));
             (delegations1, source1, effects1) =
               (if length delegations0 = 0 then
                  (memoryViews now db user, ''memory'', effects0 @ [LocalScan])
                else (delegations0, source0, effects0))
         in (db, effects1,
             \<lparr>lr_status = 200, lr_success = True, lr_message = None,
              lr_delegations = delegations1, lr_source = Some source1,
              lr_total = length delegations1,
              lr_active = length (filter (\<lambda>d. v_status d = ''Active'') delegations1),
              lr_expired = length (filter (\<lambda>d. v_status d = ''Expired'') delegations1)\<rparr>)))"

subsection \<open>GET /api/wallet/:address/delegations (backend/routes/wallet.js)\<close>

definition walletPlanView :: "int \<Rightarrow> plan \<Rightarrow> delegation_view" where
  "walletPlanView now p =
     (let expires = p_expiresAt p;
          expiresIn = expires - now
      in \<lparr>v_contractAddr = p_contractAddr p, v_expiresAt = expires,
          v_expiresIn =
            (if expiresIn > 0 then
               show_int (expiresIn div 3600) @ ''h '' @
               show_int ((expiresIn mod 3600) div 60) @ ''m''
             else ''Expired''),
          v_status = (if expiresIn > 0 then ''Active'' else ''Expired''),
          v_description =
            Some (if p_description p = [] then ''No description'' else p_description p),
          v_addedAt = p_addedAt p, v_isActive = None\<rparr>)"

definition walletContractViews :: "int \<Rightarrow> plan list \<Rightarrow> delegation_view list" where
  "walletContractViews now realDelegations =
     filter (\<lambda>d. v_contractAddr d \<noteq> ZERO_ADDRESS) (map (walletPlanView now) realDelegations)"

record wallet_list_response =
  wl_status :: nat
  wl_success :: bool
  wl_error :: "string option"
  wl_delegations :: "delegation_view list"
  wl_total :: nat
  wl_active :: nat
  wl_expired :: nat
  wl_note :: string
  wl_source :: "string option"

text \<open>This module has no in-memory store; its handler has the contract only.\<close>

definition walletDelegations ::
  "viem \<Rightarrow> int \<Rightarrow> list_remote \<Rightarrow> string \<Rightarrow> effect list \<times> wallet_list_response" where
  "walletDelegations lib now remote address =
     (if \<not> isAddress lib address then
        ([], \<lparr>wl_status = 400, wl_success = False, wl_error = Some ''Invalid wallet address'',
              wl_delegations = [], wl_total = 0, wl_active = 0, wl_expired = 0,
              wl_note = [], wl_source = None\<rparr>)
      else if \<not> ls_smartGuardContract remote then
        ([], \<lparr>wl_status = 200, wl_success = True, wl_error = None,
              wl_delegations = [], wl_total = 0, wl_active = 0, wl_expired = 0,
              wl_note = ''Contract not available - please wait for initialization'',
              wl_source = None\<rparr>)
      else
        (let (delegations, note, source) =
               (case ls_getActiveDelegations remote of
                  Inr realDelegations \<Rightarrow>
                    (let ds = walletContractViews now realDelegations
                     in (ds, ''Found '' @ show_nat (length ds) @ '' delegations from contract'',
                         ''contract''))
                | Inl msg \<Rightarrow> ([], ''Contract call failed: '' @ msg, ''error''))
         in ([RemoteGetActiveDelegations address],
             \<lparr>wl_status = 200, wl_success = True, wl_error = None,
              wl_delegations = delegations, wl_total = length delegations,
              wl_active = length (filter (\<lambda>d. v_status d = ''Active'') delegations),
              wl_expired = length (filter (\<lambda>d. v_status d = ''Expired'') delegations),
              wl_note = note, wl_source = Some source\<rparr>)))"

subsection \<open>POST /api/revoke\<close>

record revoke_request =
  rv_userAddress :: "string option"
  rv_contractAddress :: "string option"

record revoke_remote =
  rm_smartGuardContract :: bool
  rm_write_removeDelegation :: "string outcome"

text \<open>The answer of the handler, without its \<open>timestamp\<close> field.\<close>

record revoke_response =
  rr_status :: nat
  rr_success :: bool
  rr_message :: string
  rr_user :: "string option"
  rr_contract :: "string option"
  rr_contractRevokeSuccess :: "bool option"
  rr_note :: "string option"

definition revokeDelegation ::
  "revoke_remote \<Rightarrow> delegationsDB \<Rightarrow> revoke_request \<Rightarrow> delegationsDB \<times> effect list \<times> revoke_response" where
  "revokeDelegation remote db req =
     (case (rv_userAddress req, rv_contractAddress req) of
        (Some user, Some contract) \<Rightarrow>
          if user = [] \<or> contract = [] then
            (db, [], \<lparr>rr_status = 400, rr_success = False,
                      rr_message = ''User address and contract address are required'',
                      rr_user = None, rr_contract = None,
                      rr_contractRevokeSuccess = None, rr_note = None\<rparr>)
          else
            (let key = user @ ''-'' @ contract;
                 hadDelegation = map_has db key;
                 (db', local_effects) =
                   (if hadDelegation then (map_delete db key, [LocalDelete key])
                    else (db, []));
                 (contractRevokeSuccess, contractNote, remote_effects) =
                   (if rm_smartGuardContract remote then
                      (case rm_write_removeDelegation remote of
                         Inr tx \<Rightarrow>
                           (True, ''Contract revocation executed'',
                            [RemoteRemoveDelegation user contract])
                       | Inl msg \<Rightarrow>
                           (False, ''Contract revocation failed: '' @ msg,
                            [RemoteRemoveDelegation user contract]))
                    else (False, ''Contract not available'', []))
             in (db', local_effects @ remote_effects,
                 \<lparr>rr_status = 200, rr_success = True,
                  rr_message = ''Contract delegation revoked successfully'',
                  rr_user = Some user, rr_contract = Some contract,
                  rr_contractRevokeSuccess = Some contractRevokeSuccess,
                  rr_note = Some contractNote\<rparr>))
      | _ \<Rightarrow>
          (db, [], \<lparr>rr_status = 400, rr_success = False,
                    rr_message = ''User address and contract address are required'',
                    rr_user = None, rr_contract = None,
                    rr_contractRevokeSuccess = None, rr_note = None\<rparr>))"


section \<open>Sample inputs\<close>

text \<open>
  A stand-in for the two library functions: an address is \<open>0x\<close> followed by forty
  characters, and an amount is divided by \<open>10^18\<close>.
\<close>

definition viem0 :: viem where
  "viem0 = \<lparr>isAddress = (\<lambda>a. length a = 42 \<and> startsWith a ''0x''),
            parseFloat_formatEther = (\<lambda>v. real v / 10 ^ 18)\<rparr>"

definition addr_dead :: string where
  "addr_dead = ''0x000000000000000000000000000000000000dead''"

definition addr_A :: string where
  "addr_A = ''0xaaaaaaaaaaaaaaaaaaaaaaaaaaaaaaaaaaaaaaaa''"

definition addr_B :: string where
  "addr_B = ''0xbbbbbbbbbbbbbbbbbbbbbbbbbbbbbbbbbbbbbbbb''"

text \<open>
  Code strings: one in which both words that \<open>analyzeContractCode\<close> looks for occur,
  one with the first word only, and one with neither.
\<close>

definition risky_code :: string where
  "risky_code = ''0x60delegatecall_selfdestruct''"

definition proxy_code :: string where
  "proxy_code = ''0x60delegatecall''"

definition plain_code :: string where
  "plain_code = ''0x6080604052''"

text \<open>Provider outcomes and transactions for the three scoring operations.\<close>

definition wallet_rpc0 :: wallet_rpc where
  "wallet_rpc0 = \<lparr>w_getBalance = Inr 0, w_getTransactionCount = Inr 0,
                  w_isContract_getCode = Inr (Some risky_code),
                  w_getCode = Inr (Some risky_code)\<rparr>"

definition contract_rpc0 :: contract_rpc where
  "contract_rpc0 =
     \<lparr>c_getCode = Inr (Some risky_code), c_isContract_getCode = Inr (Some risky_code)\<rparr>"

definition contract_rpc_plain :: contract_rpc where
  "contract_rpc_plain =
     \<lparr>c_getCode = Inr (Some plain_code), c_isContract_getCode = Inr (Some plain_code)\<rparr>"

text \<open>
  Provider outcomes in which the read of the code inside \<open>isContractAddress\<close> rejects
  while the other read succeeds: with the code of a contract, and with \<open>undefined\<close> for
  an address without code.
\<close>

definition contract_rpc_listed_unprobed :: contract_rpc where
  "contract_rpc_listed_unprobed =
     \<lparr>c_getCode = Inr (Some risky_code), c_isContract_getCode = Inl ''timeout''\<rparr>"

definition contract_rpc_nocode_unprobed :: contract_rpc where
  "contract_rpc_nocode_unprobed =
     \<lparr>c_getCode = Inr None, c_isContract_getCode = Inl ''timeout''\<rparr>"

definition contract_rpc_plain_unprobed :: contract_rpc where
  "contract_rpc_plain_unprobed =
     \<lparr>c_getCode = Inr (Some plain_code), c_isContract_getCode = Inl ''timeout''\<rparr>"

definition contract_rpc_proxy_unprobed :: contract_rpc where
  "contract_rpc_proxy_unprobed =
     \<lparr>c_getCode = Inr (Some proxy_code), c_isContract_getCode = Inl ''timeout''\<rparr>"

definition tx_rpc0 :: tx_rpc where
  "tx_rpc0 = \<lparr>t_isContract_getCode = Inr (Some risky_code), t_scoreContract = contract_rpc0\<rparr>"

definition tx0 :: txData where
  "tx0 = \<lparr>tx_from = addr_A, tx_to = addr_dead, tx_value = Some (2 * 10 ^ 18),
          tx_data = Some ''0xa9059cbb''\<rparr>"

definition wallet_rpc70 :: wallet_rpc where
  "wallet_rpc70 = \<lparr>w_getBalance = Inr 0, w_getTransactionCount = Inr 0,
                   w_isContract_getCode = Inr (Some plain_code),
                   w_getCode = Inr (Some plain_code)\<rparr>"

definition tx_rpc_plain :: tx_rpc where
  "tx_rpc_plain =
     \<lparr>t_isContract_getCode = Inr (Some plain_code), t_scoreContract = contract_rpc_plain\<rparr>"

definition long_calldata :: string where
  "long_calldata = ''0xa9059cbb'' @ replicate 128 (CHR ''0'')"

definition tx30 :: txData where
  "tx30 = \<lparr>tx_from = addr_A, tx_to = addr_B, tx_value = None,
           tx_data = Some long_calldata\<rparr>"

definition contract_rpc_proxy :: contract_rpc where
  "contract_rpc_proxy =
     \<lparr>c_getCode = Inr (Some proxy_code), c_isContract_getCode = Inr (Some proxy_code)\<rparr>"

text \<open>The four factor strings of the balance and history rules of \<open>scoreWallet\<close>.\<close>

definition pair_factors :: "string list" where
  "pair_factors = [''Zero balance'', ''High balance'', ''No transaction history'', ''Low transaction count'']"

text \<open>
  A delegation of one hour added at second 1000 by user A to contract B, the store that
  holds it, and requests and contract behaviours for the handlers.
\<close>

definition stored_AB :: delegation where
  "stored_AB = \<lparr>userAddress = addr_A, contractAddress = addr_B, expiresAt = 4600,
                description = ''test'', addedAt = 1000, isActive = True\<rparr>"

definition db_AB :: delegationsDB where
  "db_AB = [(addr_A @ ''-'' @ addr_B, stored_AB)]"

definition add_request_AB :: add_request where
  "add_request_AB = \<lparr>r_userAddress = Some addr_A, r_contractAddress = Some addr_B,
                      r_duration = 1, r_description = Some ''test''\<rparr>"

definition add_remote_failing :: add_remote where
  "add_remote_failing = \<lparr>ad_smartGuardContract = True, ad_walletClient = True,
                          ad_write_addDelegation = Inl ''execution reverted'',
                          ad_waitForTransactionReceipt = Inl ''not reached''\<rparr>"

definition revoke_request_AB :: revoke_request where
  "revoke_request_AB = \<lparr>rv_userAddress = Some addr_A, rv_contractAddress = Some addr_B\<rparr>"

definition revoke_remote_ok :: revoke_remote where
  "revoke_remote_ok = \<lparr>rm_smartGuardContract = True, rm_write_removeDelegation = Inr ''0xabc''\<rparr>"

definition revoke_remote_failing :: revoke_remote where
  "revoke_remote_failing =
     \<lparr>rm_smartGuardContract = True, rm_write_removeDelegation = Inl ''execution reverted''\<rparr>"

definition list_remote_empty :: list_remote where
  "list_remote_empty = \<lparr>ls_smartGuardContract = True, ls_getActiveDelegations = Inr []\<rparr>"

definition plan_inactive :: plan where
  "plan_inactive = \<lparr>p_contractAddr = addr_B, p_expiresAt = 4600, p_addedAt = 1000,
                     p_description = ''test'', p_isActive = False\<rparr>"

definition list_remote_inactive :: list_remote where
  "list_remote_inactive =
     \<lparr>ls_smartGuardContract = True, ls_getActiveDelegations = Inr [plan_inactive]\<rparr>"

definition list_remote_down :: list_remote where
  "list_remote_down =
     \<lparr>ls_smartGuardContract = True, ls_getActiveDelegations = Inl ''timeout''\<rparr>"

definition plan_active :: plan where
  "plan_active = \<lparr>p_contractAddr = addr_dead, p_expiresAt = 8200, p_addedAt = 1000,
                   p_description = ''chain'', p_isActive = True\<rparr>"

definition list_remote_one :: list_remote where
  "list_remote_one =
     \<lparr>ls_smartGuardContract = True, ls_getActiveDelegations = Inr [plan_active]\<rparr>"

definition add_request_zero :: add_request where
  "add_request_zero = \<lparr>r_userAddress = Some addr_A, r_contractAddress = Some addr_B,
                        r_duration = 0, r_description = None\<rparr>"


section \<open>Properties of the risk engine\<close>

subsection \<open>Evaluation of the sample inputs\<close>

lemma isAddress_samples:
  "isAddress viem0 addr_dead" "isAddress viem0 addr_A" "isAddress viem0 addr_B"
  by (simp_all add: viem0_def addr_dead_def addr_A_def addr_B_def)

lemma toLowerCase_addr_dead: "toLowerCase addr_dead = addr_dead"
  by (simp add: toLowerCase_def lower_char_def addr_dead_def)

lemma addr_dead_known: "addr_dead \<in> set KNOWN_RISKY_CONTRACTS"
  by (simp add: KNOWN_RISKY_CONTRACTS_def addr_dead_def)

lemma addr_A_unlisted:
  "toLowerCase addr_A \<notin> set KNOWN_RISKY_CONTRACTS"
  "map_of CONTRACT_REPUTATION (toLowerCase addr_A) = None"
  by (simp_all add: toLowerCase_def lower_char_def addr_A_def KNOWN_RISKY_CONTRACTS_def
      CONTRACT_REPUTATION_def)

lemma addr_B_unlisted:
  "toLowerCase addr_B \<notin> set KNOWN_RISKY_CONTRACTS"
  "map_of CONTRACT_REPUTATION (toLowerCase addr_B) = None"
  by (simp_all add: toLowerCase_def lower_char_def addr_B_def KNOWN_RISKY_CONTRACTS_def
      CONTRACT_REPUTATION_def)

lemma analyzeContractCode_risky: "cr_score (analyzeContractCode risky_code) = 45"
  by (simp add: analyzeContractCode_def risky_code_def)

lemma analyzeContractCode_plain: "cr_score (analyzeContractCode plain_code) = 0"
  by (simp add: analyzeContractCode_def plain_code_def)

lemma analyzeContractCode_proxy: "cr_score (analyzeContractCode proxy_code) = 20"
  by (simp add: analyzeContractCode_def proxy_code_def)

lemma code_nonempty: "risky_code \<noteq> ''0x''" "plain_code \<noteq> ''0x''" "proxy_code \<noteq> ''0x''"
  by (simp_all add: risky_code_def plain_code_def proxy_code_def)

lemma checkRiskyInteractions_all: "checkRiskyInteractions (\<lambda>i. 0) = KNOWN_RISKY_CONTRACTS"
  by (simp add: checkRiskyInteractions_def KNOWN_RISKY_CONTRACTS_def)

lemma checkRiskyInteractions_none: "checkRiskyInteractions (\<lambda>i. 1 / 2) = []"
  by (simp add: checkRiskyInteractions_def KNOWN_RISKY_CONTRACTS_def)

subsection \<open>Bounds\<close>

lemma analyzeContractCode_bounds:
  "0 \<le> cr_score (analyzeContractCode code) \<and> cr_score (analyzeContractCode code) \<le> 55"
  by (simp add: analyzeContractCode_def)

lemma walletAssessment_fields:
  "0 \<le> wa_riskScore (walletAssessment b n ic cc ints s)"
  "wa_riskScore (walletAssessment b n ic cc ints s) \<le> 100"
  "wa_riskScore (walletAssessment b n ic cc ints s) = max 0 (min 100 (riskScore s))"
  "wa_riskLevel (walletAssessment b n ic cc ints s) =
     getRiskLevel (wa_riskScore (walletAssessment b n ic cc ints s))"
  "wa_factors (walletAssessment b n ic cc ints s) = riskFactors s"
  by (simp_all add: walletAssessment_def Let_def)

lemma walletScoring_not_contract:
  "walletScoring b n False c ints =
     riskyInteractions ints
       (contractCheck False
          (transactionHistory n
             (balanceAnalysis b \<lparr>riskScore = 50, riskFactors = [], warnings = []\<rparr>)))"
  by (simp add: walletScoring_def contractCodeRisk_def)

lemma scoreWallet_string_code:
  assumes "isAddress lib a" "w_getBalance rpc = Inr b" "w_getTransactionCount rpc = Inr n"
    "w_getCode rpc = Inr (Some c)"
  shows "scoreWallet lib rnd rpc a =
           Inr (walletAssessment (parseFloat_formatEther lib b) n
                  (isContractAddress (w_isContract_getCode rpc))
                  (if isContractAddress (w_isContract_getCode rpc)
                   then Some (analyzeCodeComplexity c) else None)
                  (checkRiskyInteractions rnd)
                  (walletScoring (parseFloat_formatEther lib b) n
                     (isContractAddress (w_isContract_getCode rpc)) c
                     (checkRiskyInteractions rnd)))"
  using assms by (simp add: scoreWallet_def promise_all4_def promise_all2_def Let_def)

lemma scoreWallet_undefined_code:
  assumes "isAddress lib a" "w_getBalance rpc = Inr b" "w_getTransactionCount rpc = Inr n"
    "w_getCode rpc = Inr None"
  shows "scoreWallet lib rnd rpc a =
           (if isContractAddress (w_isContract_getCode rpc)
            then Inl (''Failed to score wallet: '' @ undefined_length)
            else Inr (walletAssessment (parseFloat_formatEther lib b) n False None
                        (checkRiskyInteractions rnd)
                        (walletScoring (parseFloat_formatEther lib b) n False []
                           (checkRiskyInteractions rnd))))"
  using assms
  by (simp add: scoreWallet_def promise_all4_def promise_all2_def Let_def
      walletScoring_not_contract)

lemma scoreWallet_inputs:
  assumes "scoreWallet lib rnd rpc a = Inr w"
  shows "isAddress lib a \<and>
         (\<exists>b n code. w_getBalance rpc = Inr b \<and> w_getTransactionCount rpc = Inr n \<and>
            w_getCode rpc = Inr code)"
  using assms unfolding scoreWallet_def promise_all4_def promise_all2_def
  by (auto split: if_splits sum.splits)

lemma scoreWallet_score:
  assumes "scoreWallet lib rnd rpc a = Inr w"
  shows "\<exists>b n code. w_getBalance rpc = Inr b \<and> w_getTransactionCount rpc = Inr n \<and>
           (w_getCode rpc = Inr (Some code) \<or>
            w_getCode rpc = Inr None \<and> \<not> isContractAddress (w_isContract_getCode rpc)) \<and>
           wa_riskScore w =
             max 0 (min 100 (riskScore (walletScoring (parseFloat_formatEther lib b) n
               (isContractAddress (w_isContract_getCode rpc)) code (checkRiskyInteractions rnd)))) \<and>
           wa_riskLevel w = getRiskLevel (wa_riskScore w) \<and>
           wa_factors w = riskFactors (walletScoring (parseFloat_formatEther lib b) n
               (isContractAddress (w_isContract_getCode rpc)) code (checkRiskyInteractions rnd))"
proof -
  obtain b n code where i: "isAddress lib a" "w_getBalance rpc = Inr b"
      "w_getTransactionCount rpc = Inr n" "w_getCode rpc = Inr code"
    using scoreWallet_inputs [OF assms] by blast
  show ?thesis
  proof (cases code)
    case None
    then show ?thesis
      using scoreWallet_undefined_code [OF i(1,2,3), of rnd] i assms
      by (auto simp: walletAssessment_fields split: if_splits)
  next
    case (Some c)
    then show ?thesis
      using scoreWallet_string_code [OF i(1,2,3), of c rnd] i assms
      by (auto simp: walletAssessment_fields)
  qed
qed

lemma scoreWallet_range:
  "scoreWallet lib rnd rpc a = Inr w \<Longrightarrow> 0 \<le> wa_riskScore w \<and> wa_riskScore w \<le> 100"
  using scoreWallet_score [of lib rnd rpc a w] by auto

lemma scoreContract_range:
  "scoreContract lib rpc a = Inr c \<Longrightarrow> 0 \<le> ca_score c \<and> ca_score c \<le> 100"
  unfolding scoreContract_def Let_def
  by (auto split: if_splits sum.splits prod.splits option.splits)

lemma analyzeTransaction_range:
  "analyzeTransaction lib rpc tx = Inr t \<Longrightarrow> 0 \<le> tr_riskScore t \<and> tr_riskScore t \<le> 100"
  unfolding analyzeTransaction_def Let_def
  by (auto split: if_splits sum.splits prod.splits option.splits)

lemma scoreWallet_returns:
  assumes "isAddress lib a" "w_getBalance rpc = Inr b" "w_getTransactionCount rpc = Inr n"
    "w_getCode rpc = Inr code"
    "code = None \<longrightarrow> \<not> isContractAddress (w_isContract_getCode rpc)"
  shows "\<exists>w. scoreWallet lib rnd rpc a = Inr w"
proof (cases code)
  case None
  then show ?thesis
    using scoreWallet_undefined_code [OF assms(1,2,3), of rnd] assms(4,5) by simp
next
  case (Some c)
  then show ?thesis
    using scoreWallet_string_code [OF assms(1,2,3), of c rnd] assms(4) by simp
qed

lemma scoreContract_empty:
  assumes "isAddress lib a" "c_getCode rpc = Inr code"
    "\<not> isContractAddress (c_isContract_getCode rpc) \<or> code = Some ''0x''"
  shows "scoreContract lib rpc a =
           Inr \<lparr>ca_contract = a, ca_score = 0, ca_riskLevel = ''Unknown'',
                ca_reasons = [''Not a contract or no code''], ca_verified = False,
                ca_analysis = None\<rparr>"
  using assms by (auto simp: scoreContract_def promise_all2_def)

lemma scoreContract_undefined_code:
  assumes "isAddress lib a" "c_getCode rpc = Inr None"
    "isContractAddress (c_isContract_getCode rpc)"
  shows "scoreContract lib rpc a = Inl (''Failed to score contract: '' @ undefined_length)"
  using assms by (simp add: scoreContract_def promise_all2_def)

lemma scoreContract_nonempty:
  assumes "isAddress lib a" "c_getCode rpc = Inr (Some code)"
    "isContractAddress (c_isContract_getCode rpc)" "code \<noteq> ''0x''"
  shows "\<exists>c. scoreContract lib rpc a = Inr c \<and> 50 \<le> ca_score c \<and> ca_score c \<le> 100 \<and>
           ca_riskLevel c = getRiskLevel (ca_score c) \<and>
           (toLowerCase a \<in> set KNOWN_RISKY_CONTRACTS \<longrightarrow>
              ca_score c = 100 \<and> last (ca_reasons c) = ''Flagged as known risky contract'') \<and>
           (toLowerCase a \<notin> set KNOWN_RISKY_CONTRACTS \<longrightarrow>
              ca_score c =
                min 100 (case map_of CONTRACT_REPUTATION (toLowerCase a) of
                           None \<Rightarrow> 50 + cr_score (analyzeContractCode code)
                         | Some rep \<Rightarrow> max (50 + cr_score (analyzeContractCode code)) (risk rep)))"
proof -
  have b: "0 \<le> cr_score (analyzeContractCode code)" "cr_score (analyzeContractCode code) \<le> 55"
    using analyzeContractCode_bounds [of code] by simp_all
  show ?thesis
    using assms b unfolding scoreContract_def promise_all2_def Let_def
    by (auto split: option.splits)
qed

lemma scoreContract_returns:
  assumes "isAddress lib a" "c_getCode rpc = Inr code"
    "code = None \<longrightarrow> \<not> isContractAddress (c_isContract_getCode rpc)"
  shows "\<exists>c. scoreContract lib rpc a = Inr c"
proof (cases "\<not> isContractAddress (c_isContract_getCode rpc) \<or> code = Some ''0x''")
  case True
  then show ?thesis
    using scoreContract_empty [OF assms(1,2)] by simp
next
  case False
  then obtain c where "code = Some c" "c \<noteq> ''0x''"
    using assms(3) by (cases code) auto
  then show ?thesis
    using scoreContract_nonempty [OF assms(1), of rpc c] assms(2) False by blast
qed

lemma analyzeTransaction_returns:
  assumes "isAddress lib (tx_to tx)" "c_getCode (t_scoreContract rpc) = Inr code"
    "code = None \<longrightarrow> \<not> isContractAddress (c_isContract_getCode (t_scoreContract rpc))"
  shows "\<exists>t. analyzeTransaction lib rpc tx = Inr t"
proof -
  obtain c where "scoreContract lib (t_scoreContract rpc) (tx_to tx) = Inr c"
    using scoreContract_returns [OF assms] by blast
  then show ?thesis
    by (simp add: analyzeTransaction_def contractInteraction_def Let_def)
qed

lemma walletScoring_sample:
  "riskScore (walletScoring 0 0 True risky_code KNOWN_RISKY_CONTRACTS) = 160"
  by (simp add: KNOWN_RISKY_CONTRACTS_def walletScoring_def balanceAnalysis_def
      transactionHistory_def contractCheck_def contractCodeRisk_def riskyInteractions_def
      analyzeContractCode_risky code_nonempty)

text \<open>
  Claim C1. Whatever the library functions, the random draws and the outcomes of the
  provider calls are, a score returned by \<open>scoreWallet\<close>, \<open>scoreContract\<close> or
  \<open>analyzeTransaction\<close> is an integer between 0 and 100, both included. For a valid
  address whose provider calls succeed each of the three does return an assessment,
  unless the bytecode read is \<open>undefined\<close> while the address is taken for a contract (then
  the operation throws and returns no score). The sample below has factors that add up to
  160 before the clamp.
\<close>

theorem score_in_range:
  "(\<forall>w. scoreWallet lib rnd wrpc a = Inr w \<longrightarrow> 0 \<le> wa_riskScore w \<and> wa_riskScore w \<le> 100) \<and>
   (\<forall>c. scoreContract lib crpc a = Inr c \<longrightarrow> 0 \<le> ca_score c \<and> ca_score c \<le> 100) \<and>
   (\<forall>t. analyzeTransaction lib trpc tx = Inr t \<longrightarrow> 0 \<le> tr_riskScore t \<and> tr_riskScore t \<le> 100) \<and>
   (isAddress lib a \<and> w_getBalance wrpc = Inr b \<and> w_getTransactionCount wrpc = Inr n \<and>
    w_getCode wrpc = Inr code \<and>
    (code = None \<longrightarrow> \<not> isContractAddress (w_isContract_getCode wrpc)) \<longrightarrow>
      (\<exists>w. scoreWallet lib rnd wrpc a = Inr w)) \<and>
   (isAddress lib a \<and> c_getCode crpc = Inr code \<and>
    (code = None \<longrightarrow> \<not> isContractAddress (c_isContract_getCode crpc)) \<longrightarrow>
      (\<exists>c. scoreContract lib crpc a = Inr c)) \<and>
   (isAddress lib (tx_to tx) \<and> c_getCode (t_scoreContract trpc) = Inr code \<and>
    (code = None \<longrightarrow> \<not> isContractAddress (c_isContract_getCode (t_scoreContract trpc))) \<longrightarrow>
      (\<exists>t. analyzeTransaction lib trpc tx = Inr t))"
proof -
  have "isAddress lib a \<and> w_getBalance wrpc = Inr b \<and> w_getTransactionCount wrpc = Inr n \<and>
    w_getCode wrpc = Inr code \<and>
    (code = None \<longrightarrow> \<not> isContractAddress (w_isContract_getCode wrpc)) \<longrightarrow>
      (\<exists>w. scoreWallet lib rnd wrpc a = Inr w)"
    using scoreWallet_returns [of lib a wrpc b n code rnd] by blast
  moreover have "isAddress lib a \<and> c_getCode crpc = Inr code \<and>
    (code = None \<longrightarrow> \<not> isContractAddress (c_isContract_getCode crpc)) \<longrightarrow>
      (\<exists>c. scoreContract lib crpc a = Inr c)"
    using scoreContract_returns [of lib a crpc code] by blast
  moreover have "isAddress lib (tx_to tx) \<and> c_getCode (t_scoreContract trpc) = Inr code \<and>
    (code = None \<longrightarrow> \<not> isContractAddress (c_isContract_getCode (t_scoreContract trpc))) \<longrightarrow>
      (\<exists>t. analyzeTransaction lib trpc tx = Inr t)"
    using analyzeTransaction_returns [of lib tx trpc code] by blast
  ultimately show ?thesis
    using scoreWallet_range [of lib rnd wrpc a] scoreContract_range [of lib crpc a]
      analyzeTransaction_range [of lib trpc tx]
    by blast
qed

theorem score_in_range_witness:
  "(\<exists>w. scoreWallet viem0 (\<lambda>i. 0) wallet_rpc0 addr_dead = Inr w \<and>
        wa_riskScore w = 100 \<and> 0 \<le> wa_riskScore w \<and> wa_riskScore w \<le> 100) \<and>
   (\<exists>c. scoreContract viem0 contract_rpc0 addr_dead = Inr c \<and>
        0 \<le> ca_score c \<and> ca_score c \<le> 100) \<and>
   (\<exists>t. analyzeTransaction viem0 tx_rpc0 tx0 = Inr t \<and>
        0 \<le> tr_riskScore t \<and> tr_riskScore t \<le> 100)"
proof -
  note r = score_in_range [where lib = viem0 and rnd = "\<lambda>i. 0" and wrpc = wallet_rpc0
      and a = addr_dead and crpc = contract_rpc0 and trpc = tx_rpc0 and tx = tx0
      and b = 0 and n = 0 and code = "Some risky_code"]
  have h: "w_getBalance wallet_rpc0 = Inr 0" "w_getTransactionCount wallet_rpc0 = Inr 0"
    "w_getCode wallet_rpc0 = Inr (Some risky_code)"
    "c_getCode contract_rpc0 = Inr (Some risky_code)"
    "c_getCode (t_scoreContract tx_rpc0) = Inr (Some risky_code)"
    "tx_to tx0 = addr_dead"
    by (simp_all add: wallet_rpc0_def contract_rpc0_def tx_rpc0_def tx0_def)
  obtain w where w: "scoreWallet viem0 (\<lambda>i. 0) wallet_rpc0 addr_dead = Inr w"
    using r h isAddress_samples(1) by auto
  obtain c where c: "scoreContract viem0 contract_rpc0 addr_dead = Inr c"
    using r h isAddress_samples(1) by auto
  obtain t where t: "analyzeTransaction viem0 tx_rpc0 tx0 = Inr t"
    using r h isAddress_samples(1) by auto
  have "wa_riskScore w = 100"
    using scoreWallet_score [OF w]
    by (auto simp: wallet_rpc0_def viem0_def isContractAddress_def code_nonempty
        checkRiskyInteractions_all walletScoring_sample)
  with w c t r show ?thesis by simp
qed

lemma getRiskLevel_cases: "getRiskLevel s \<in> {''Low'', ''Medium'', ''High''}"
  by (simp add: getRiskLevel_def)

lemma getRiskLevel_not_Unknown: "getRiskLevel s \<noteq> ''Unknown''"
  by (simp add: getRiskLevel_def)

text \<open>
  Claim C2, as amended. For a valid address whose lower-case form is in
  \<open>KNOWN_RISKY_CONTRACTS\<close>: when the read of the bytecode gives a hex string other than
  \<open>0x\<close> and \<open>isContractAddress\<close> reports a contract (its own read of the code does not
  reject and does not give \<open>0x\<close>), \<open>scoreContract\<close> returns the score 100, the level High
  and the reason of the flag, whatever the bytecode contains. When \<open>isContractAddress\<close>
  reports no contract, the early return answers score 0 and level Unknown before the list
  is read, whatever the read of the bytecode gave; this is the counterexample to the claim
  as stated.
\<close>

theorem known_risky_contract_scores_100:
  assumes "isAddress lib a" and "toLowerCase a \<in> set KNOWN_RISKY_CONTRACTS"
  shows "(c_getCode rpc = Inr (Some code) \<and> code \<noteq> ''0x'' \<and>
          isContractAddress (c_isContract_getCode rpc) \<longrightarrow>
            (\<exists>c. scoreContract lib rpc a = Inr c \<and> ca_score c = 100 \<and>
                 ca_riskLevel c = ''High'' \<and>
                 last (ca_reasons c) = ''Flagged as known risky contract'')) \<and>
         (c_getCode rpc = Inr codeRead \<and> \<not> isContractAddress (c_isContract_getCode rpc) \<longrightarrow>
            scoreContract lib rpc a =
              Inr \<lparr>ca_contract = a, ca_score = 0, ca_riskLevel = ''Unknown'',
                   ca_reasons = [''Not a contract or no code''], ca_verified = False,
                   ca_analysis = None\<rparr>)"
proof -
  have 1: "\<exists>c. scoreContract lib rpc a = Inr c \<and> ca_score c = 100 \<and>
                 ca_riskLevel c = ''High'' \<and>
                 last (ca_reasons c) = ''Flagged as known risky contract''"
    if h: "c_getCode rpc = Inr (Some code)" "code \<noteq> ''0x''"
      "isContractAddress (c_isContract_getCode rpc)"
  proof -
    obtain c where c: "scoreContract lib rpc a = Inr c" "ca_score c = 100"
        "ca_riskLevel c = getRiskLevel (ca_score c)"
        "last (ca_reasons c) = ''Flagged as known risky contract''"
      using scoreContract_nonempty [OF assms(1) h(1,3,2)] assms(2) by blast
    then show ?thesis by (simp add: getRiskLevel_def)
  qed
  have 2: "scoreContract lib rpc a =
              Inr \<lparr>ca_contract = a, ca_score = 0, ca_riskLevel = ''Unknown'',
                   ca_reasons = [''Not a contract or no code''], ca_verified = False,
                   ca_analysis = None\<rparr>"
    if h: "c_getCode rpc = Inr codeRead" "\<not> isContractAddress (c_isContract_getCode rpc)"
    using scoreContract_empty [OF assms(1) h(1)] h(2) by simp
  from 1 2 show ?thesis by blast
qed

theorem known_risky_contract_scores_100_witness:
  "(\<exists>c. scoreContract viem0 contract_rpc0 addr_dead = Inr c \<and> ca_score c = 100 \<and>
       ca_riskLevel c = ''High'' \<and> last (ca_reasons c) = ''Flagged as known risky contract'') \<and>
   scoreContract viem0 contract_rpc_listed_unprobed addr_dead =
     Inr \<lparr>ca_contract = addr_dead, ca_score = 0, ca_riskLevel = ''Unknown'',
          ca_reasons = [''Not a contract or no code''], ca_verified = False,
          ca_analysis = None\<rparr>"
proof -
  have l: "toLowerCase addr_dead \<in> set KNOWN_RISKY_CONTRACTS"
    by (simp add: toLowerCase_addr_dead addr_dead_known)
  have p: "isContractAddress (c_isContract_getCode contract_rpc0)"
    "c_getCode contract_rpc0 = Inr (Some risky_code)"
    by (simp_all add: contract_rpc0_def isContractAddress_def code_nonempty)
  have q: "\<not> isContractAddress (c_isContract_getCode contract_rpc_listed_unprobed)"
    "c_getCode contract_rpc_listed_unprobed = Inr (Some risky_code)"
    by (simp_all add: contract_rpc_listed_unprobed_def isContractAddress_def)
  have 1: "\<exists>c. scoreContract viem0 contract_rpc0 addr_dead = Inr c \<and> ca_score c = 100 \<and>
       ca_riskLevel c = ''High'' \<and> last (ca_reasons c) = ''Flagged as known risky contract''"
    using known_risky_contract_scores_100 [OF isAddress_samples(1) l, of contract_rpc0 risky_code]
      p code_nonempty(1) by blast
  have 2: "scoreContract viem0 contract_rpc_listed_unprobed addr_dead =
     Inr \<lparr>ca_contract = addr_dead, ca_score = 0, ca_riskLevel = ''Unknown'',
          ca_reasons = [''Not a contract or no code''], ca_verified = False,
          ca_analysis = None\<rparr>"
    using known_risky_contract_scores_100 [OF isAddress_samples(1) l,
        where rpc = contract_rpc_listed_unprobed and codeRead = "Some risky_code"] q by blast
  from 1 2 show ?thesis by blast
qed

theorem known_risky_contract_not_probed_counterexample:
  "isAddress viem0 addr_dead \<and> toLowerCase addr_dead \<in> set KNOWN_RISKY_CONTRACTS \<and>
   c_getCode contract_rpc_listed_unprobed = Inr (Some risky_code) \<and>
   c_isContract_getCode contract_rpc_listed_unprobed = Inl ''timeout'' \<and>
   scoreContract viem0 contract_rpc_listed_unprobed addr_dead =
     Inr \<lparr>ca_contract = addr_dead, ca_score = 0, ca_riskLevel = ''Unknown'',
          ca_reasons = [''Not a contract or no code''], ca_verified = False,
          ca_analysis = None\<rparr> \<and>
   c_getCode contract_rpc_nocode_unprobed = Inr None \<and>
   c_isContract_getCode contract_rpc_nocode_unprobed = Inl ''timeout'' \<and>
   scoreContract viem0 contract_rpc_nocode_unprobed addr_dead =
     Inr \<lparr>ca_contract = addr_dead, ca_score = 0, ca_riskLevel = ''Unknown'',
          ca_reasons = [''Not a contract or no code''], ca_verified = False,
          ca_analysis = None\<rparr>"
proof -
  have 1: "scoreContract viem0 contract_rpc_listed_unprobed addr_dead =
     Inr \<lparr>ca_contract = addr_dead, ca_score = 0, ca_riskLevel = ''Unknown'',
          ca_reasons = [''Not a contract or no code''], ca_verified = False,
          ca_analysis = None\<rparr>"
    using scoreContract_empty [of viem0 addr_dead contract_rpc_listed_unprobed "Some risky_code"]
    by (simp add: isAddress_samples contract_rpc_listed_unprobed_def isContractAddress_def)
  have 2: "scoreContract viem0 contract_rpc_nocode_unprobed addr_dead =
     Inr \<lparr>ca_contract = addr_dead, ca_score = 0, ca_riskLevel = ''Unknown'',
          ca_reasons = [''Not a contract or no code''], ca_verified = False,
          ca_analysis = None\<rparr>"
    using scoreContract_empty [of viem0 addr_dead contract_rpc_nocode_unprobed None]
    by (simp add: isAddress_samples contract_rpc_nocode_unprobed_def isContractAddress_def)
  from 1 2 show ?thesis
    by (simp add: isAddress_samples toLowerCase_addr_dead addr_dead_known
        contract_rpc_listed_unprobed_def contract_rpc_nocode_unprobed_def)
qed

text \<open>
  Claim C8, as amended. For a valid address whose read of the bytecode gives a hex
  string, \<open>scoreContract\<close> returns score 0 together with level Unknown if and only if that
  string is \<open>0x\<close> or \<open>isContractAddress\<close> reports no contract (its own read of the code
  rejects or gives \<open>0x\<close>). When \<open>isContractAddress\<close> reports a contract and the string is
  not \<open>0x\<close>, it returns one of the levels Low, Medium, High, the one \<open>getRiskLevel\<close> gives
  for the score, and the score starts from the base 50: it is at least 50, and for an
  address in neither table it is 50 plus the code risk, capped at 100. The counterexample
  to the claim as stated is an address with non-empty bytecode for which the read inside
  \<open>isContractAddress\<close> rejects: it gets score 0 and level Unknown.
\<close>

theorem scoreContract_unknown_iff_guard:
  assumes "isAddress lib a" and "c_getCode rpc = Inr (Some code)"
  shows "\<exists>c. scoreContract lib rpc a = Inr c \<and>
           ((ca_score c = 0 \<and> ca_riskLevel c = ''Unknown'') \<longleftrightarrow>
              (\<not> isContractAddress (c_isContract_getCode rpc) \<or> code = ''0x'')) \<and>
           (isContractAddress (c_isContract_getCode rpc) \<and> code \<noteq> ''0x'' \<longrightarrow>
              ca_riskLevel c \<in> {''Low'', ''Medium'', ''High''} \<and>
              ca_riskLevel c = getRiskLevel (ca_score c) \<and>
              50 \<le> ca_score c \<and> ca_score c \<le> 100 \<and>
              (toLowerCase a \<notin> set KNOWN_RISKY_CONTRACTS \<and>
               map_of CONTRACT_REPUTATION (toLowerCase a) = None \<longrightarrow>
                 ca_score c = min 100 (50 + cr_score (analyzeContractCode code))))"
proof (cases "\<not> isContractAddress (c_isContract_getCode rpc) \<or> code = ''0x''")
  case True
  then show ?thesis
    using scoreContract_empty [OF assms(1,2)] by auto
next
  case False
  then have ic: "isContractAddress (c_isContract_getCode rpc)" and ne: "code \<noteq> ''0x''"
    by simp_all
  obtain c where c: "scoreContract lib rpc a = Inr c" "50 \<le> ca_score c" "ca_score c \<le> 100"
      "ca_riskLevel c = getRiskLevel (ca_score c)"
      "toLowerCase a \<notin> set KNOWN_RISKY_CONTRACTS \<longrightarrow>
         ca_score c =
           min 100 (case map_of CONTRACT_REPUTATION (toLowerCase a) of
                      None \<Rightarrow> 50 + cr_score (analyzeContractCode code)
                    | Some rep \<Rightarrow> max (50 + cr_score (analyzeContractCode code)) (risk rep))"
    using scoreContract_nonempty [OF assms(1,2) ic ne] by blast
  have "ca_riskLevel c \<noteq> ''Unknown''" "ca_riskLevel c \<in> {''Low'', ''Medium'', ''High''}"
    using c(4) getRiskLevel_not_Unknown getRiskLevel_cases by simp_all
  with c ic ne show ?thesis by auto
qed

theorem scoreContract_unknown_iff_guard_witness:
  "(\<exists>c. scoreContract viem0 contract_rpc_proxy_unprobed addr_A = Inr c \<and>
        ca_score c = 0 \<and> ca_riskLevel c = ''Unknown'') \<and>
   (\<exists>c. scoreContract viem0 contract_rpc_plain addr_A = Inr c \<and>
        ca_riskLevel c = ''Medium'' \<and> ca_score c = 50)"
proof -
  have p: "c_getCode contract_rpc_proxy_unprobed = Inr (Some proxy_code)"
    "\<not> isContractAddress (c_isContract_getCode contract_rpc_proxy_unprobed)"
    by (simp_all add: contract_rpc_proxy_unprobed_def isContractAddress_def)
  have q: "c_getCode contract_rpc_plain = Inr (Some plain_code)"
    "isContractAddress (c_isContract_getCode contract_rpc_plain)"
    by (simp_all add: contract_rpc_plain_def isContractAddress_def code_nonempty)
  have 1: "\<exists>c. scoreContract viem0 contract_rpc_proxy_unprobed addr_A = Inr c \<and>
        ca_score c = 0 \<and> ca_riskLevel c = ''Unknown''"
    using scoreContract_unknown_iff_guard [OF isAddress_samples(2) p(1)] p(2) by auto
  have 2: "\<exists>c. scoreContract viem0 contract_rpc_plain addr_A = Inr c \<and>
        ca_riskLevel c = ''Medium'' \<and> ca_score c = 50"
    using scoreContract_unknown_iff_guard [OF isAddress_samples(2) q(1)] q(2) addr_A_unlisted
    by (auto simp: code_nonempty analyzeContractCode_plain getRiskLevel_def)
  from 1 2 show ?thesis by blast
qed

theorem scoreContract_unknown_nonempty_code_counterexample:
  "isAddress viem0 addr_A \<and> plain_code \<noteq> ''0x'' \<and> plain_code \<noteq> [] \<and>
   c_getCode contract_rpc_plain_unprobed = Inr (Some plain_code) \<and>
   c_isContract_getCode contract_rpc_plain_unprobed = Inl ''timeout'' \<and>
   scoreContract viem0 contract_rpc_plain_unprobed addr_A =
     Inr \<lparr>ca_contract = addr_A, ca_score = 0, ca_riskLevel = ''Unknown'',
          ca_reasons = [''Not a contract or no code''], ca_verified = False,
          ca_analysis = None\<rparr>"
proof -
  have "scoreContract viem0 contract_rpc_plain_unprobed addr_A =
     Inr \<lparr>ca_contract = addr_A, ca_score = 0, ca_riskLevel = ''Unknown'',
          ca_reasons = [''Not a contract or no code''], ca_verified = False,
          ca_analysis = None\<rparr>"
    using scoreContract_empty [of viem0 addr_A contract_rpc_plain_unprobed "Some plain_code"]
    by (simp add: isAddress_samples contract_rpc_plain_unprobed_def isContractAddress_def)
  then show ?thesis
    by (simp add: isAddress_samples code_nonempty contract_rpc_plain_unprobed_def)
       (simp add: plain_code_def)
qed

lemma scoreContract_level:
  assumes "scoreContract lib rpc a = Inr c"
  shows "(ca_score c = 0 \<and> ca_riskLevel c = ''Unknown'') \<or>
         (50 \<le> ca_score c \<and> ca_riskLevel c = getRiskLevel (ca_score c))"
proof -
  have ia: "isAddress lib a"
    using assms by (auto simp: scoreContract_def split: if_splits)
  obtain code where code: "c_getCode rpc = Inr code"
    using assms ia by (cases "c_getCode rpc") (auto simp: scoreContract_def promise_all2_def)
  show ?thesis
  proof (cases "\<not> isContractAddress (c_isContract_getCode rpc) \<or> code = Some ''0x''")
    case True
    then show ?thesis
      using scoreContract_empty [OF ia code] assms by auto
  next
    case False
    show ?thesis
    proof (cases code)
      case None
      then show ?thesis
        using scoreContract_undefined_code [OF ia] code False assms by simp
    next
      case (Some s)
      then show ?thesis
        using scoreContract_nonempty [OF ia, of rpc s] code False assms by auto
    qed
  qed
qed

lemma analyzeTransaction_level:
  "analyzeTransaction lib rpc tx = Inr t \<Longrightarrow> tr_riskLevel t = getRiskLevel (tr_riskScore t)"
  unfolding analyzeTransaction_def Let_def
  by (auto split: sum.splits)

text \<open>
  Claim C7. The level returned by each of the three scoring operations is
  \<open>getRiskLevel\<close> of the returned score (for \<open>scoreContract\<close>, unless it is the answer
  Unknown with score 0), and \<open>getRiskLevel\<close> is exact at the boundaries: 30 gives Medium,
  70 gives High, 29 gives Low and 69 gives Medium.
\<close>

theorem risk_level_boundaries:
  "getRiskLevel 30 = ''Medium'' \<and> getRiskLevel 70 = ''High'' \<and>
   getRiskLevel 29 = ''Low'' \<and> getRiskLevel 69 = ''Medium'' \<and>
   (\<forall>w. scoreWallet lib rnd wrpc a = Inr w \<longrightarrow> wa_riskLevel w = getRiskLevel (wa_riskScore w)) \<and>
   (\<forall>c. scoreContract lib crpc a = Inr c \<longrightarrow>
        ca_riskLevel c = (if ca_score c = 0 then ''Unknown'' else getRiskLevel (ca_score c))) \<and>
   (\<forall>t. analyzeTransaction lib trpc tx = Inr t \<longrightarrow> tr_riskLevel t = getRiskLevel (tr_riskScore t))"
proof -
  have "\<forall>w. scoreWallet lib rnd wrpc a = Inr w \<longrightarrow> wa_riskLevel w = getRiskLevel (wa_riskScore w)"
    using scoreWallet_score by blast
  moreover have "\<forall>c. scoreContract lib crpc a = Inr c \<longrightarrow>
        ca_riskLevel c = (if ca_score c = 0 then ''Unknown'' else getRiskLevel (ca_score c))"
    using scoreContract_level [of lib crpc a] by auto
  moreover have "\<forall>t. analyzeTransaction lib trpc tx = Inr t \<longrightarrow>
        tr_riskLevel t = getRiskLevel (tr_riskScore t)"
    using analyzeTransaction_level by blast
  ultimately show ?thesis by (simp add: getRiskLevel_def)
qed

lemma walletScoring_70: "riskScore (walletScoring 0 0 True plain_code []) = 70"
  by (simp add: walletScoring_def balanceAnalysis_def transactionHistory_def contractCheck_def
      contractCodeRisk_def riskyInteractions_def analyzeContractCode_plain code_nonempty)

lemma scoreContract_plain_B:
  "\<exists>c. scoreContract viem0 contract_rpc_plain addr_B = Inr c \<and> ca_score c = 50"
proof -
  have q: "c_getCode contract_rpc_plain = Inr (Some plain_code)"
    "isContractAddress (c_isContract_getCode contract_rpc_plain)"
    by (simp_all add: contract_rpc_plain_def isContractAddress_def code_nonempty)
  show ?thesis
    using scoreContract_nonempty [OF isAddress_samples(3) q code_nonempty(2)] addr_B_unlisted
    by (auto simp: analyzeContractCode_plain)
qed

lemma analyzeTransaction_30:
  "map_sum id tr_riskScore (analyzeTransaction viem0 tx_rpc_plain tx30) = Inr 30"
proof -
  obtain c where c: "scoreContract viem0 contract_rpc_plain addr_B = Inr c" "ca_score c = 50"
    using scoreContract_plain_B by blast
  have d: "length long_calldata > 100" "long_calldata \<noteq> []" "long_calldata \<noteq> ''0x''"
    by (simp_all add: long_calldata_def)
  show ?thesis
    using c d
    by (simp add: analyzeTransaction_def tx_rpc_plain_def tx30_def valueAnalysis_def
        contractInteraction_def isContractAddress_def calldataAnalysis_def Let_def
        code_nonempty)
qed

theorem risk_level_boundaries_witness:
  "(\<exists>w. scoreWallet viem0 (\<lambda>i. 1 / 2) wallet_rpc70 addr_A = Inr w \<and>
        wa_riskScore w = 70 \<and> wa_riskLevel w = ''High'') \<and>
   (\<exists>t. analyzeTransaction viem0 tx_rpc_plain tx30 = Inr t \<and>
        tr_riskScore t = 30 \<and> tr_riskLevel t = ''Medium'') \<and>
   (\<exists>c. scoreContract viem0 contract_rpc_proxy addr_A = Inr c \<and>
        ca_score c = 70 \<and> ca_riskLevel c = ''High'')"
proof -
  note b = risk_level_boundaries [of viem0 "\<lambda>i. 1 / 2" wallet_rpc70 addr_A]
  obtain w where w: "scoreWallet viem0 (\<lambda>i. 1 / 2) wallet_rpc70 addr_A = Inr w"
    using scoreWallet_returns [of viem0 addr_A wallet_rpc70 0 0 "Some plain_code" "\<lambda>i. 1 / 2"]
    by (auto simp: isAddress_samples wallet_rpc70_def)
  have w70: "wa_riskScore w = 70"
    using scoreWallet_score [OF w]
    by (auto simp: wallet_rpc70_def viem0_def isContractAddress_def code_nonempty
        checkRiskyInteractions_none walletScoring_70)
  have 1: "wa_riskLevel w = ''High''"
    using b w w70 by simp
  obtain t where t: "analyzeTransaction viem0 tx_rpc_plain tx30 = Inr t"
    using analyzeTransaction_30 by (cases "analyzeTransaction viem0 tx_rpc_plain tx30") auto
  have t30: "tr_riskScore t = 30"
    using analyzeTransaction_30 t by simp
  have 2: "tr_riskLevel t = ''Medium''"
    using risk_level_boundaries [of viem0 "\<lambda>i. 1 / 2" wallet_rpc70 addr_A contract_rpc0
        tx_rpc_plain tx30] t t30 by simp
  have ic: "isContractAddress (c_isContract_getCode contract_rpc_proxy)"
    by (simp add: contract_rpc_proxy_def isContractAddress_def code_nonempty)
  have gc: "c_getCode contract_rpc_proxy = Inr (Some proxy_code)"
    by (simp add: contract_rpc_proxy_def)
  have "\<exists>c. scoreContract viem0 contract_rpc_proxy addr_A = Inr c \<and> ca_score c = 70"
    using scoreContract_nonempty [OF isAddress_samples(2) gc ic code_nonempty(3)] addr_A_unlisted
    by (auto simp: analyzeContractCode_proxy)
  then obtain c where c: "scoreContract viem0 contract_rpc_proxy addr_A = Inr c" "ca_score c = 70"
    by blast
  have 3: "ca_riskLevel c = ''High''"
    using risk_level_boundaries [of viem0 "\<lambda>i. 1 / 2" wallet_rpc70 addr_A contract_rpc_proxy] c
    by simp
  from w w70 1 t t30 2 c 3 show ?thesis by blast
qed

lemma helpers_getRiskLevel_differs:
  "helpers_getRiskLevel 70 = ''Medium'' \<and> helpers_getRiskLevel 30 = ''Low'' \<and>
   helpers_getRiskLevel 90 = ''High''"
  by (simp add: helpers_getRiskLevel_def RISK_THRESHOLDS_HIGH_def RISK_THRESHOLDS_MEDIUM_def)

lemma balanceAnalysis_step:
  "(riskScore (balanceAnalysis b s), riskFactors (balanceAnalysis b s)) =
     (if b = 0 then (riskScore s + 10, riskFactors s @ [''Zero balance''])
      else if b > 10 then (riskScore s + 15, riskFactors s @ [''High balance''])
      else (riskScore s, riskFactors s))"
  by (simp add: balanceAnalysis_def)

lemma transactionHistory_step:
  "(riskScore (transactionHistory n s), riskFactors (transactionHistory n s)) =
     (if n = 0 then (riskScore s + 20, riskFactors s @ [''No transaction history''])
      else if n < 3 then (riskScore s + 10, riskFactors s @ [''Low transaction count''])
      else (riskScore s, riskFactors s))"
  by (simp add: transactionHistory_def)

lemma analyzeContractCode_factors:
  "x \<in> set pair_factors \<Longrightarrow> count_list (cr_factors (analyzeContractCode code)) x = 0"
  by (auto simp: analyzeContractCode_def pair_factors_def)

lemma contractCheck_factors:
  "x \<in> set pair_factors \<Longrightarrow>
     count_list (riskFactors (contractCheck ic s)) x = count_list (riskFactors s) x"
  by (auto simp: contractCheck_def pair_factors_def)

lemma contractCodeRisk_factors:
  "x \<in> set pair_factors \<Longrightarrow>
     count_list (riskFactors (contractCodeRisk ic code s)) x = count_list (riskFactors s) x"
  by (simp add: contractCodeRisk_def Let_def analyzeContractCode_factors)

lemma riskyInteractions_factors:
  "x \<in> set pair_factors \<Longrightarrow>
     count_list (riskFactors (riskyInteractions ints s)) x = count_list (riskFactors s) x"
  by (auto simp: riskyInteractions_def pair_factors_def)

lemma walletScoring_factors:
  assumes "x \<in> set pair_factors"
  shows "count_list (riskFactors (walletScoring b n ic code ints)) x =
           (if x = ''Zero balance'' \<and> b = 0 then 1 else 0) +
           (if x = ''High balance'' \<and> b \<noteq> 0 \<and> b > 10 then 1 else 0) +
           (if x = ''No transaction history'' \<and> n = 0 then 1 else 0) +
           (if x = ''Low transaction count'' \<and> n \<noteq> 0 \<and> n < 3 then 1 else 0)"
  unfolding walletScoring_def
  using assms
  by (simp add: riskyInteractions_factors contractCodeRisk_factors contractCheck_factors)
     (auto simp: transactionHistory_def balanceAnalysis_def pair_factors_def)

lemma walletScoring_riskScore:
  "riskScore (walletScoring b n ic code ints) =
     50 + (if b = 0 then 10 else if b > 10 then 15 else 0)
        + (if n = 0 then 20 else if n < 3 then 10 else 0)
        - (if ic then 10 else 0)
        + (if ic \<and> code \<noteq> ''0x'' then cr_score (analyzeContractCode code) else 0)
        + int (length ints) * 15"
  by (simp add: walletScoring_def riskyInteractions_def contractCodeRisk_def contractCheck_def
      transactionHistory_def balanceAnalysis_def Let_def)

text \<open>
  Claim C10. In every assessment that \<open>scoreWallet\<close> returns, the factors Zero balance and
  High balance occur at most once between them, and so do the factors No transaction
  history and Low transaction count. The score before the clamp has one balance term
  (10, 15 or nothing) and one history term (20, 10 or nothing), each chosen by an
  \<open>if\<close> / \<open>else if\<close> chain.
\<close>

theorem wallet_factor_pairs_exclusive:
  "(\<forall>w. scoreWallet lib rnd rpc a = Inr w \<longrightarrow>
      count_list (wa_factors w) ''Zero balance'' + count_list (wa_factors w) ''High balance'' \<le> 1 \<and>
      count_list (wa_factors w) ''No transaction history'' +
        count_list (wa_factors w) ''Low transaction count'' \<le> 1) \<and>
   riskScore (walletScoring b n ic code ints) =
     50 + (if b = 0 then 10 else if b > 10 then 15 else 0)
        + (if n = 0 then 20 else if n < 3 then 10 else 0)
        - (if ic then 10 else 0)
        + (if ic \<and> code \<noteq> ''0x'' then cr_score (analyzeContractCode code) else 0)
        + int (length ints) * 15 \<and>
   (''Zero balance'' \<in> set (riskFactors (walletScoring b n ic code ints)) \<longleftrightarrow> b = 0) \<and>
   (''High balance'' \<in> set (riskFactors (walletScoring b n ic code ints)) \<longleftrightarrow> b \<noteq> 0 \<and> b > 10) \<and>
   (''No transaction history'' \<in> set (riskFactors (walletScoring b n ic code ints)) \<longleftrightarrow> n = 0) \<and>
   (''Low transaction count'' \<in> set (riskFactors (walletScoring b n ic code ints)) \<longleftrightarrow>
      n \<noteq> 0 \<and> n < 3)"
proof -
  have pf: "''Zero balance'' \<in> set pair_factors" "''High balance'' \<in> set pair_factors"
    "''No transaction history'' \<in> set pair_factors" "''Low transaction count'' \<in> set pair_factors"
    by (simp_all add: pair_factors_def)
  have counts: "count_list (wa_factors w) ''Zero balance'' + count_list (wa_factors w) ''High balance'' \<le> 1 \<and>
      count_list (wa_factors w) ''No transaction history'' +
        count_list (wa_factors w) ''Low transaction count'' \<le> 1"
    if sw: "scoreWallet lib rnd rpc a = Inr w" for w
  proof -
    obtain b' n' code' where
      "wa_factors w = riskFactors (walletScoring b' n' (isContractAddress (w_isContract_getCode rpc))
          code' (checkRiskyInteractions rnd))"
      using scoreWallet_score [OF sw] by blast
    then show ?thesis
      by (simp add: walletScoring_factors pf)
  qed
  have mem: "x \<in> set (riskFactors (walletScoring b n ic code ints)) \<longleftrightarrow>
      count_list (riskFactors (walletScoring b n ic code ints)) x \<noteq> 0" for x
    by (simp add: count_list_0_iff)
  show ?thesis
    using counts walletScoring_riskScore [of b n ic code ints]
    by (simp add: mem walletScoring_factors pf)
qed

theorem wallet_factor_pairs_exclusive_witness:
  "\<exists>w. scoreWallet viem0 (\<lambda>i. 0) wallet_rpc0 addr_dead = Inr w \<and>
       count_list (wa_factors w) ''Zero balance'' = 1 \<and>
       count_list (wa_factors w) ''High balance'' = 0 \<and>
       count_list (wa_factors w) ''No transaction history'' = 1 \<and>
       count_list (wa_factors w) ''Low transaction count'' = 0 \<and>
       riskScore (walletScoring 0 0 True risky_code KNOWN_RISKY_CONTRACTS) = 50 + 10 + 20 - 10 + 45 + 45"
proof -
  obtain w where w: "scoreWallet viem0 (\<lambda>i. 0) wallet_rpc0 addr_dead = Inr w"
    using scoreWallet_returns [of viem0 addr_dead wallet_rpc0 0 0 "Some risky_code" "\<lambda>i. 0"]
    by (auto simp: isAddress_samples wallet_rpc0_def)
  have f: "wa_factors w = riskFactors (walletScoring 0 0 True risky_code KNOWN_RISKY_CONTRACTS)"
    using scoreWallet_score [OF w]
    by (auto simp: wallet_rpc0_def viem0_def isContractAddress_def code_nonempty
        checkRiskyInteractions_all)
  have z: "''Zero balance'' \<in> set (wa_factors w)" "''No transaction history'' \<in> set (wa_factors w)"
    using wallet_factor_pairs_exclusive [of viem0 "\<lambda>i. 0" wallet_rpc0 addr_dead 0 0 True risky_code
        KNOWN_RISKY_CONTRACTS] f by simp_all
  have c: "count_list (wa_factors w) ''Zero balance'' + count_list (wa_factors w) ''High balance'' \<le> 1"
    "count_list (wa_factors w) ''No transaction history'' +
        count_list (wa_factors w) ''Low transaction count'' \<le> 1"
    using wallet_factor_pairs_exclusive [of viem0 "\<lambda>i. 0" wallet_rpc0 addr_dead 0 0 True risky_code
        KNOWN_RISKY_CONTRACTS] w by simp_all
  have nz: "count_list (wa_factors w) ''Zero balance'' \<noteq> 0"
    "count_list (wa_factors w) ''No transaction history'' \<noteq> 0"
    using z by (simp_all add: count_list_0_iff)
  have s: "riskScore (walletScoring 0 0 True risky_code KNOWN_RISKY_CONTRACTS) = 50 + 10 + 20 - 10 + 45 + 45"
    using wallet_factor_pairs_exclusive [of viem0 "\<lambda>i. 0" wallet_rpc0 addr_dead 0 0 True risky_code
        KNOWN_RISKY_CONTRACTS]
    by (simp add: code_nonempty analyzeContractCode_risky KNOWN_RISKY_CONTRACTS_def)
  from w c nz s show ?thesis by auto
qed


section \<open>Properties of the delegation routes\<close>

lemma map_of_map_set: "map_of (map_set m k v) k = Some v"
  by (induction m) auto

lemma map_has_map_set: "map_has (map_set m k v) k"
  using map_of_map_set [of m k v] by (auto simp: map_has_def dest: map_of_SomeD intro: rev_image_eqI)

lemma map_has_map_delete: "\<not> map_has (map_delete m k) k"
  by (auto simp: map_has_def map_delete_def)

lemma map_delete_absent: "\<not> map_has m k \<Longrightarrow> map_delete m k = m"
  by (induction m) (auto simp: map_has_def map_delete_def)

lemma revokeDelegation_present:
  assumes "rv_userAddress req = Some user" "rv_contractAddress req = Some contract"
    "user \<noteq> []" "contract \<noteq> []"
  shows "\<exists>effects ok note.
           revokeDelegation remote db req =
             (if map_has db (user @ ''-'' @ contract) then map_delete db (user @ ''-'' @ contract)
              else db,
              (if map_has db (user @ ''-'' @ contract) then [LocalDelete (user @ ''-'' @ contract)]
               else []) @ effects,
              \<lparr>rr_status = 200, rr_success = True,
               rr_message = ''Contract delegation revoked successfully'',
               rr_user = Some user, rr_contract = Some contract,
               rr_contractRevokeSuccess = Some ok, rr_note = Some note\<rparr>) \<and>
           list_all is_remote effects \<and>
           (ok \<longleftrightarrow> rm_smartGuardContract remote \<and> isl (rm_write_removeDelegation remote) = False)"
  using assms
  by (auto simp: revokeDelegation_def Let_def split: sum.splits)

text \<open>
  Claim C9. For every pair of a user address and a contract address that are present and
  not empty, two calls of the revoke handler in a row both answer with status 200 and
  \<open>success: true\<close>, whatever the store holds and whatever the contract does in either
  call. After the first call the key is absent from the store, and the second call leaves
  the store as it is and deletes nothing.
\<close>

theorem revoke_twice_succeeds:
  assumes "rv_userAddress req = Some user" and "rv_contractAddress req = Some contract"
    and "user \<noteq> []" and "contract \<noteq> []"
  shows "case revokeDelegation remote1 db req of (db1, effects1, resp1) \<Rightarrow>
           (case revokeDelegation remote2 db1 req of (db2, effects2, resp2) \<Rightarrow>
              rr_success resp1 \<and> rr_status resp1 = 200 \<and>
              rr_success resp2 \<and> rr_status resp2 = 200 \<and>
              \<not> map_has db1 (user @ ''-'' @ contract) \<and>
              db2 = db1 \<and> list_all is_remote effects2)"
proof -
  let ?key = "user @ ''-'' @ contract"
  obtain db1 effects1 resp1 where r1: "revokeDelegation remote1 db req = (db1, effects1, resp1)"
    by (metis prod_cases3)
  obtain db2 effects2 resp2 where r2: "revokeDelegation remote2 db1 req = (db2, effects2, resp2)"
    by (metis prod_cases3)
  have a1: "db1 = (if map_has db ?key then map_delete db ?key else db)"
    "rr_success resp1" "rr_status resp1 = 200"
    using revokeDelegation_present [OF assms, of remote1 db] r1 by auto
  then have absent: "\<not> map_has db1 ?key"
    by (simp add: map_has_map_delete)
  have a2: "db2 = db1" "rr_success resp2" "rr_status resp2 = 200" "list_all is_remote effects2"
    using revokeDelegation_present [OF assms, of remote2 db1] r2 absent by auto
  show ?thesis
    using r1 r2 a1 a2 absent by simp
qed

theorem revoke_twice_succeeds_witness:
  "case revokeDelegation revoke_remote_ok db_AB revoke_request_AB of (db1, effects1, resp1) \<Rightarrow>
     (case revokeDelegation revoke_remote_failing db1 revoke_request_AB of (db2, effects2, resp2) \<Rightarrow>
        rr_success resp1 \<and> rr_status resp1 = 200 \<and>
        rr_success resp2 \<and> rr_status resp2 = 200 \<and>
        \<not> map_has db1 (addr_A @ ''-'' @ addr_B) \<and>
        db2 = db1 \<and> list_all is_remote effects2)"
  using revoke_twice_succeeds [where req = revoke_request_AB and user = addr_A
      and contract = addr_B and ?remote1.0 = revoke_remote_ok and db = db_AB
      and ?remote2.0 = revoke_remote_failing]
  by (simp add: revoke_request_AB_def addr_A_def addr_B_def)

lemma revoke_sample_run:
  "revokeDelegation revoke_remote_ok db_AB revoke_request_AB =
     ([], [LocalDelete (addr_A @ ''-'' @ addr_B), RemoteRemoveDelegation addr_A addr_B],
      \<lparr>rr_status = 200, rr_success = True,
       rr_message = ''Contract delegation revoked successfully'',
       rr_user = Some addr_A, rr_contract = Some addr_B,
       rr_contractRevokeSuccess = Some True, rr_note = Some ''Contract revocation executed''\<rparr>)"
  "revokeDelegation revoke_remote_failing [] revoke_request_AB =
     ([], [RemoteRemoveDelegation addr_A addr_B],
      \<lparr>rr_status = 200, rr_success = True,
       rr_message = ''Contract delegation revoked successfully'',
       rr_user = Some addr_A, rr_contract = Some addr_B,
       rr_contractRevokeSuccess = Some False,
       rr_note = Some ''Contract revocation failed: execution reverted''\<rparr>)"
  by (simp_all add: revokeDelegation_def revoke_request_AB_def revoke_remote_ok_def
      revoke_remote_failing_def db_AB_def map_has_def map_delete_def addr_A_def addr_B_def)

text \<open>
  Claim C5. In every call of the add handler whose two addresses are present and not
  empty, the first effect is the write of the record to the local store and every later
  effect is a call at the contract. Whatever the contract does, also when the write
  there fails, the store returned holds the record under its key, and the answer is
  status 200 with \<open>success: true\<close> and the view of the delegation created.
\<close>

theorem add_writes_local_first:
  assumes "r_userAddress req = Some user" and "r_contractAddress req = Some contract"
    and "user \<noteq> []" and "contract \<noteq> []"
  shows "\<exists>stored rest.
           stored = \<lparr>userAddress = user, contractAddress = contract,
                      expiresAt = now + r_duration req * 3600,
                      description = or_default (r_description req) ''No description'',
                      addedAt = now, isActive = True\<rparr> \<and>
           addDelegation now remote db req =
             (map_set db (user @ ''-'' @ contract) stored,
              LocalSet (user @ ''-'' @ contract) stored # rest,
              \<lparr>ar_status = 200, ar_success = True,
               ar_message = ''Delegation added successfully'',
               ar_delegation =
                 Some \<lparr>v_contractAddr = contract, v_expiresAt = now + r_duration req * 3600,
                       v_expiresIn = show_int (r_duration req) @ ''h'',
                       v_status = ''Active'', v_description = None,
                       v_addedAt = now, v_isActive = None\<rparr>\<rparr>) \<and>
           list_all is_remote rest \<and>
           (ad_smartGuardContract remote \<and> ad_walletClient remote \<longrightarrow> rest \<noteq> []) \<and>
           map_of (map_set db (user @ ''-'' @ contract) stored) (user @ ''-'' @ contract) =
             Some stored"
  using assms
  by (auto simp: addDelegation_def Let_def map_of_map_set split: sum.splits)

theorem add_writes_local_first_witness:
  "addDelegation 1000 add_remote_failing [] add_request_AB =
     (db_AB,
      [LocalSet (addr_A @ ''-'' @ addr_B) stored_AB,
       RemoteAddDelegation addr_A addr_B 3600 ''test''],
      \<lparr>ar_status = 200, ar_success = True,
       ar_message = ''Delegation added successfully'',
       ar_delegation =
         Some \<lparr>v_contractAddr = addr_B, v_expiresAt = 4600, v_expiresIn = ''1h'',
               v_status = ''Active'', v_description = None,
               v_addedAt = 1000, v_isActive = None\<rparr>\<rparr>) \<and>
   map_of db_AB (addr_A @ ''-'' @ addr_B) = Some stored_AB"
proof -
  have e: "addDelegation 1000 add_remote_failing [] add_request_AB =
     (db_AB,
      [LocalSet (addr_A @ ''-'' @ addr_B) stored_AB,
       RemoteAddDelegation addr_A addr_B 3600 ''test''],
      \<lparr>ar_status = 200, ar_success = True,
       ar_message = ''Delegation added successfully'',
       ar_delegation =
         Some \<lparr>v_contractAddr = addr_B, v_expiresAt = 4600, v_expiresIn = ''1h'',
               v_status = ''Active'', v_description = None,
               v_addedAt = 1000, v_isActive = None\<rparr>\<rparr>)"
    by (simp add: addDelegation_def add_remote_failing_def add_request_AB_def db_AB_def
        stored_AB_def or_default_def show_int_def show_nat.simps digit_def addr_A_def addr_B_def
        Let_def)
  have h: "r_userAddress add_request_AB = Some addr_A"
    "r_contractAddress add_request_AB = Some addr_B" "addr_A \<noteq> []" "addr_B \<noteq> []"
    by (simp_all add: add_request_AB_def addr_A_def addr_B_def)
  obtain stored rest resp where
    a: "addDelegation 1000 add_remote_failing [] add_request_AB =
          (map_set [] (addr_A @ ''-'' @ addr_B) stored,
           LocalSet (addr_A @ ''-'' @ addr_B) stored # rest, resp)"
    and m: "map_of (map_set [] (addr_A @ ''-'' @ addr_B) stored) (addr_A @ ''-'' @ addr_B) =
          Some stored"
    using add_writes_local_first [OF h, of 1000 add_remote_failing "[]"] by blast
  have eq: "stored = stored_AB" "map_set [] (addr_A @ ''-'' @ addr_B) stored_AB = db_AB"
    using a e by auto
  have "map_of db_AB (addr_A @ ''-'' @ addr_B) = Some stored_AB"
    using m by (simp only: eq)
  with e show ?thesis by simp
qed

lemma memoryViews_db_AB:
  "memoryViews 1000 db_AB addr_A =
     [\<lparr>v_contractAddr = addr_B, v_expiresAt = 4600, v_expiresIn = ''1h'',
       v_status = ''Active'', v_description = Some ''test'', v_addedAt = 1000,
       v_isActive = None\<rparr>]"
  by (simp add: memoryViews_def memoryView_def db_AB_def stored_AB_def addr_A_def addr_B_def
      show_int_def show_nat.simps digit_def Let_def)

lemma memoryViews_db_AB_later:
  "memoryViews 5000 db_AB addr_A =
     [\<lparr>v_contractAddr = addr_B, v_expiresAt = 4600, v_expiresIn = ''Expired'',
       v_status = ''Expired'', v_description = Some ''test'', v_addedAt = 1000,
       v_isActive = None\<rparr>]"
  by (simp add: memoryViews_def memoryView_def db_AB_def stored_AB_def addr_A_def addr_B_def
      Let_def)

lemma listDelegations_remote_success:
  assumes "isAddress lib user" "ls_smartGuardContract remote"
    "ls_getActiveDelegations remote = Inr plans"
  shows "listDelegations lib now remote db user =
           (if contractViews now plans = [] then
              (db, [RemoteGetActiveDelegations user, LocalScan],
               \<lparr>lr_status = 200, lr_success = True, lr_message = None,
                lr_delegations = memoryViews now db user, lr_source = Some ''memory'',
                lr_total = length (memoryViews now db user),
                lr_active = length (filter (\<lambda>d. v_status d = ''Active'') (memoryViews now db user)),
                lr_expired = length (filter (\<lambda>d. v_status d = ''Expired'') (memoryViews now db user))\<rparr>)
            else
              (db, [RemoteGetActiveDelegations user],
               \<lparr>lr_status = 200, lr_success = True, lr_message = None,
                lr_delegations = contractViews now plans, lr_source = Some ''contract'',
                lr_total = length (contractViews now plans),
                lr_active = length (filter (\<lambda>d. v_status d = ''Active'') (contractViews now plans)),
                lr_expired = length (filter (\<lambda>d. v_status d = ''Expired'') (contractViews now plans))\<rparr>))"
  using assms by (simp add: listDelegations_def Let_def)

lemma listDelegations_remote_failure:
  assumes "isAddress lib user"
    "\<not> ls_smartGuardContract remote \<or> ls_getActiveDelegations remote = Inl msg"
  shows "listDelegations lib now remote db user =
           (db, (if ls_smartGuardContract remote then [RemoteGetActiveDelegations user] else [])
                  @ [LocalScan],
            \<lparr>lr_status = 200, lr_success = True, lr_message = None,
             lr_delegations = memoryViews now db user, lr_source = Some ''memory'',
             lr_total = length (memoryViews now db user),
             lr_active = length (filter (\<lambda>d. v_status d = ''Active'') (memoryViews now db user)),
             lr_expired = length (filter (\<lambda>d. v_status d = ''Expired'') (memoryViews now db user))\<rparr>)"
  using assms by (auto simp: listDelegations_def Let_def)

lemma walletDelegations_remote_success:
  assumes "isAddress lib user" "ls_smartGuardContract remote"
    "ls_getActiveDelegations remote = Inr plans"
  shows "fst (walletDelegations lib now remote user) = [RemoteGetActiveDelegations user] \<and>
         wl_delegations (snd (walletDelegations lib now remote user)) =
           walletContractViews now plans \<and>
         wl_source (snd (walletDelegations lib now remote user)) = Some ''contract''"
  using assms by (simp add: walletDelegations_def Let_def)

lemma walletDelegations_remote_failure:
  assumes "\<not> ls_smartGuardContract remote \<or> ls_getActiveDelegations remote = Inl msg"
  shows "wl_delegations (snd (walletDelegations lib now remote user)) = [] \<and>
         LocalScan \<notin> set (fst (walletDelegations lib now remote user))"
  using assms by (auto simp: walletDelegations_def Let_def)

lemma contractViews_plan_active:
  "contractViews 1000 [plan_active] =
     [\<lparr>v_contractAddr = addr_dead, v_expiresAt = 8200, v_expiresIn = ''2h 0m'',
       v_status = ''Active'', v_description = Some ''chain'', v_addedAt = 1000,
       v_isActive = Some True\<rparr>]"
  by (simp add: contractViews_def planView_def plan_active_def ZERO_ADDRESS_def addr_dead_def
      show_int_def show_nat.simps digit_def Let_def)

lemma contractViews_plan_inactive:
  "contractViews 1000 [plan_inactive] =
     [\<lparr>v_contractAddr = addr_B, v_expiresAt = 4600, v_expiresIn = ''1h 0m'',
       v_status = ''Active'', v_description = Some ''test'', v_addedAt = 1000,
       v_isActive = Some False\<rparr>]"
  by (simp add: contractViews_def planView_def plan_inactive_def ZERO_ADDRESS_def addr_B_def
      show_int_def show_nat.simps digit_def Let_def)

text \<open>
  Claim C3, as amended. For a valid user address: when the read from the contract
  succeeds and its result, after the entries with the zero address are filtered out, is
  not empty, the delegation route returns exactly that result and does not scan the local
  store. When the read succeeds with an empty filtered result, when it fails, or when the
  contract handle is not set, the route scans the local store and returns its active
  entries whose key starts with the user address. The wallet route has no local store: it
  returns the filtered result of a successful read, also when that is empty. The
  counterexample to the claim as stated is a successful read of an empty array over a
  store that holds an entry of the user.
\<close>

theorem list_remote_unless_empty:
  assumes "isAddress lib user"
  shows "(ls_smartGuardContract remote \<and> ls_getActiveDelegations remote = Inr plans \<and>
          contractViews now plans \<noteq> [] \<longrightarrow>
            lr_delegations (snd (snd (listDelegations lib now remote db user))) =
              contractViews now plans \<and>
            lr_source (snd (snd (listDelegations lib now remote db user))) = Some ''contract'' \<and>
            LocalScan \<notin> set (fst (snd (listDelegations lib now remote db user)))) \<and>
         (ls_smartGuardContract remote \<and> ls_getActiveDelegations remote = Inr plans \<and>
          contractViews now plans = [] \<longrightarrow>
            lr_delegations (snd (snd (listDelegations lib now remote db user))) =
              memoryViews now db user \<and>
            lr_source (snd (snd (listDelegations lib now remote db user))) = Some ''memory'' \<and>
            LocalScan \<in> set (fst (snd (listDelegations lib now remote db user)))) \<and>
         (\<not> ls_smartGuardContract remote \<or> ls_getActiveDelegations remote = Inl msg \<longrightarrow>
            lr_delegations (snd (snd (listDelegations lib now remote db user))) =
              memoryViews now db user \<and>
            lr_source (snd (snd (listDelegations lib now remote db user))) = Some ''memory'' \<and>
            LocalScan \<in> set (fst (snd (listDelegations lib now remote db user)))) \<and>
         (ls_smartGuardContract remote \<and> ls_getActiveDelegations remote = Inr plans \<longrightarrow>
            wl_delegations (snd (walletDelegations lib now remote user)) =
              walletContractViews now plans) \<and>
         LocalScan \<notin> set (fst (walletDelegations lib now remote user))"
proof -
  have 1: "ls_smartGuardContract remote \<and> ls_getActiveDelegations remote = Inr plans \<and>
          contractViews now plans \<noteq> [] \<longrightarrow>
            lr_delegations (snd (snd (listDelegations lib now remote db user))) =
              contractViews now plans \<and>
            lr_source (snd (snd (listDelegations lib now remote db user))) = Some ''contract'' \<and>
            LocalScan \<notin> set (fst (snd (listDelegations lib now remote db user)))"
    using listDelegations_remote_success [OF assms, of remote plans now db] by simp
  have 2: "ls_smartGuardContract remote \<and> ls_getActiveDelegations remote = Inr plans \<and>
          contractViews now plans = [] \<longrightarrow>
            lr_delegations (snd (snd (listDelegations lib now remote db user))) =
              memoryViews now db user \<and>
            lr_source (snd (snd (listDelegations lib now remote db user))) = Some ''memory'' \<and>
            LocalScan \<in> set (fst (snd (listDelegations lib now remote db user)))"
    using listDelegations_remote_success [OF assms, of remote plans now db] by simp
  have 3: "\<not> ls_smartGuardContract remote \<or> ls_getActiveDelegations remote = Inl msg \<longrightarrow>
            lr_delegations (snd (snd (listDelegations lib now remote db user))) =
              memoryViews now db user \<and>
            lr_source (snd (snd (listDelegations lib now remote db user))) = Some ''memory'' \<and>
            LocalScan \<in> set (fst (snd (listDelegations lib now remote db user)))"
    using listDelegations_remote_failure [OF assms, of remote msg now db] by auto
  have 4: "ls_smartGuardContract remote \<and> ls_getActiveDelegations remote = Inr plans \<longrightarrow>
            wl_delegations (snd (walletDelegations lib now remote user)) =
              walletContractViews now plans"
    using walletDelegations_remote_success [OF assms, of remote plans now] by simp
  have 5: "LocalScan \<notin> set (fst (walletDelegations lib now remote user))"
    by (auto simp: walletDelegations_def Let_def split: sum.splits)
  from 1 2 3 4 5 show ?thesis by blast
qed

theorem list_remote_unless_empty_witness:
  "lr_delegations (snd (snd (listDelegations viem0 1000 list_remote_one db_AB addr_A))) =
     contractViews 1000 [plan_active] \<and>
   LocalScan \<notin> set (fst (snd (listDelegations viem0 1000 list_remote_one db_AB addr_A))) \<and>
   lr_delegations (snd (snd (listDelegations viem0 1000 list_remote_empty db_AB addr_A))) =
     memoryViews 1000 db_AB addr_A \<and>
   lr_delegations (snd (snd (listDelegations viem0 1000 list_remote_down db_AB addr_A))) =
     memoryViews 1000 db_AB addr_A \<and>
   wl_delegations (snd (walletDelegations viem0 1000 list_remote_empty addr_A)) = []"
proof -
  have ne: "contractViews 1000 [plan_active] \<noteq> []"
    by (simp add: contractViews_plan_active)
  have e: "contractViews 1000 [] = []" "walletContractViews 1000 [] = []"
    by (simp_all add: contractViews_def walletContractViews_def)
  have a: "lr_delegations (snd (snd (listDelegations viem0 1000 list_remote_one db_AB addr_A))) =
     contractViews 1000 [plan_active] \<and>
   LocalScan \<notin> set (fst (snd (listDelegations viem0 1000 list_remote_one db_AB addr_A)))"
    using list_remote_unless_empty [OF isAddress_samples(2), where remote = list_remote_one
        and plans = "[plan_active]" and now = 1000 and db = db_AB] ne
    by (simp add: list_remote_one_def)
  have b: "lr_delegations (snd (snd (listDelegations viem0 1000 list_remote_empty db_AB addr_A))) =
     memoryViews 1000 db_AB addr_A \<and>
     wl_delegations (snd (walletDelegations viem0 1000 list_remote_empty addr_A)) = []"
    using list_remote_unless_empty [OF isAddress_samples(2), where remote = list_remote_empty
        and plans = "[]" and now = 1000 and db = db_AB] e
    by (simp add: list_remote_empty_def)
  have c: "lr_delegations (snd (snd (listDelegations viem0 1000 list_remote_down db_AB addr_A))) =
     memoryViews 1000 db_AB addr_A"
    using list_remote_unless_empty [OF isAddress_samples(2), where remote = list_remote_down
        and now = 1000 and msg = "''timeout''" and db = db_AB]
    by (simp add: list_remote_down_def)
  from a b c show ?thesis by simp
qed

theorem list_remote_empty_counterexample:
  "isAddress viem0 addr_A \<and>
   ls_smartGuardContract list_remote_empty \<and>
   ls_getActiveDelegations list_remote_empty = Inr [] \<and>
   listDelegations viem0 1000 list_remote_empty db_AB addr_A =
     (db_AB, [RemoteGetActiveDelegations addr_A, LocalScan],
      \<lparr>lr_status = 200, lr_success = True, lr_message = None,
       lr_delegations =
         [\<lparr>v_contractAddr = addr_B, v_expiresAt = 4600, v_expiresIn = ''1h'',
           v_status = ''Active'', v_description = Some ''test'', v_addedAt = 1000,
           v_isActive = None\<rparr>],
       lr_source = Some ''memory'', lr_total = 1, lr_active = 1, lr_expired = 0\<rparr>)"
proof -
  have r: "ls_smartGuardContract list_remote_empty"
    "ls_getActiveDelegations list_remote_empty = Inr []"
    by (simp_all add: list_remote_empty_def)
  have "contractViews 1000 [] = []"
    by (simp add: contractViews_def)
  then show ?thesis
    using listDelegations_remote_success [OF isAddress_samples(2) r, of 1000 db_AB] r
    by (simp add: isAddress_samples memoryViews_db_AB)
qed

lemma planView_status:
  "v_status (planView now p) = (if now < v_expiresAt (planView now p) then ''Active'' else ''Expired'')"
  by (simp add: planView_def Let_def)

lemma walletPlanView_status:
  "v_status (walletPlanView now p) =
     (if now < v_expiresAt (walletPlanView now p) then ''Active'' else ''Expired'')"
  by (simp add: walletPlanView_def Let_def)

lemma memoryView_status:
  "v_status (memoryView now d) = (if now < expiresAt d then ''Active'' else ''Expired'') \<and>
   v_expiresAt (memoryView now d) = expiresAt d"
  by (simp add: memoryView_def Let_def)

lemma contractViews_status:
  "v \<in> set (contractViews now plans) \<Longrightarrow>
     v_status v = (if now < v_expiresAt v then ''Active'' else ''Expired'')"
  using planView_status by (auto simp: contractViews_def)

lemma walletContractViews_status:
  "v \<in> set (walletContractViews now plans) \<Longrightarrow>
     v_status v = (if now < v_expiresAt v then ''Active'' else ''Expired'')"
  using walletPlanView_status by (auto simp: walletContractViews_def)

lemma memoryViews_status:
  assumes "v \<in> set (memoryViews now db user)"
  shows "\<exists>d \<in> snd ` set db. isActive d \<and> v = memoryView now d \<and>
           v_status v = (if now < v_expiresAt v then ''Active'' else ''Expired'') \<and>
           (v_status v = ''Active'' \<longleftrightarrow> isActive d \<and> now < expiresAt d)"
proof -
  obtain key d where d: "(key, d) \<in> set db" "isActive d" "v = memoryView now d"
    using assms by (auto simp: memoryViews_def)
  have "d \<in> snd ` set db"
    using d(1) by force
  moreover have "v_status v = (if now < v_expiresAt v then ''Active'' else ''Expired'')"
    "v_status v = ''Active'' \<longleftrightarrow> isActive d \<and> now < expiresAt d"
    using memoryView_status [of now d] d(2,3) by simp_all
  ultimately show ?thesis
    using d(2,3) by blast
qed

lemma listDelegations_views:
  "v \<in> set (lr_delegations (snd (snd (listDelegations lib now remote db user)))) \<Longrightarrow>
     (\<exists>plans. v \<in> set (contractViews now plans)) \<or> v \<in> set (memoryViews now db user)"
  by (auto simp: listDelegations_def Let_def split: if_splits sum.splits)

lemma walletDelegations_views:
  "v \<in> set (wl_delegations (snd (walletDelegations lib now remote user))) \<Longrightarrow>
     \<exists>plans. v \<in> set (walletContractViews now plans)"
  by (auto simp: walletDelegations_def Let_def split: if_splits sum.splits)

text \<open>
  Claim C6, as amended. A listing never changes the store: the store a read returns is
  the store it was given, at every time, so \<open>isActive\<close> of a stored record stays as it is
  until a handler that writes runs. The status of every entry returned, by either listing
  route, is derived at read time from the expiry alone: Active exactly when the current
  time is strictly before \<open>expiresAt\<close>, and Expired otherwise. \<open>isActive\<close> is not part of
  the status: an entry read from the contract is passed through with its flag, and the
  scan of the local store leaves out the records whose flag is false, so that for the
  local entries returned the status is Active exactly when \<open>isActive\<close> holds and the time
  is before the expiry. The counterexample to the claim as stated is an entry read from
  the contract that is not yet expired and whose \<open>isActive\<close> is false.
\<close>

theorem status_derived_from_expiry:
  "fst (listDelegations lib now remote db user) = db \<and>
   (\<forall>v \<in> set (lr_delegations (snd (snd (listDelegations lib now remote db user)))).
      v_status v = (if now < v_expiresAt v then ''Active'' else ''Expired'')) \<and>
   (\<forall>v \<in> set (wl_delegations (snd (walletDelegations lib now remote user))).
      v_status v = (if now < v_expiresAt v then ''Active'' else ''Expired'')) \<and>
   (\<forall>v \<in> set (memoryViews now db user).
      \<exists>d \<in> snd ` set db. isActive d \<and> v = memoryView now d \<and>
        (v_status v = ''Active'' \<longleftrightarrow> isActive d \<and> now < expiresAt d))"
proof -
  have 1: "fst (listDelegations lib now remote db user) = db"
    by (simp add: listDelegations_def Let_def split: prod.splits)
  have 2: "v_status v = (if now < v_expiresAt v then ''Active'' else ''Expired'')"
    if v: "v \<in> set (lr_delegations (snd (snd (listDelegations lib now remote db user))))" for v
    using listDelegations_views [OF v] contractViews_status [of v now]
      memoryViews_status [of v now db user] by blast
  have 3: "v_status v = (if now < v_expiresAt v then ''Active'' else ''Expired'')"
    if v: "v \<in> set (wl_delegations (snd (walletDelegations lib now remote user)))" for v
    using walletDelegations_views [OF v] walletContractViews_status [of v now] by blast
  have 4: "\<exists>d \<in> snd ` set db. isActive d \<and> v = memoryView now d \<and>
        (v_status v = ''Active'' \<longleftrightarrow> isActive d \<and> now < expiresAt d)"
    if v: "v \<in> set (memoryViews now db user)" for v
    using memoryViews_status [OF v] by blast
  from 1 2 3 4 show ?thesis by blast
qed

theorem status_derived_from_expiry_witness:
  "fst (listDelegations viem0 1000 list_remote_down db_AB addr_A) = db_AB \<and>
   map v_status (lr_delegations (snd (snd (listDelegations viem0 1000 list_remote_down db_AB addr_A))))
     = [''Active''] \<and>
   fst (listDelegations viem0 5000 list_remote_down db_AB addr_A) = db_AB \<and>
   map v_status (lr_delegations (snd (snd (listDelegations viem0 5000 list_remote_down db_AB addr_A))))
     = [''Expired''] \<and>
   isActive stored_AB"
proof -
  have r: "\<not> ls_smartGuardContract list_remote_down \<or>
      ls_getActiveDelegations list_remote_down = Inl ''timeout''"
    by (simp add: list_remote_down_def)
  have l1: "lr_delegations (snd (snd (listDelegations viem0 1000 list_remote_down db_AB addr_A))) =
      memoryViews 1000 db_AB addr_A"
    using listDelegations_remote_failure [OF isAddress_samples(2) r] by simp
  have l2: "lr_delegations (snd (snd (listDelegations viem0 5000 list_remote_down db_AB addr_A))) =
      memoryViews 5000 db_AB addr_A"
    using listDelegations_remote_failure [OF isAddress_samples(2) r] by simp
  have s1: "fst (listDelegations viem0 1000 list_remote_down db_AB addr_A) = db_AB \<and>
      (\<forall>v \<in> set (memoryViews 1000 db_AB addr_A).
         v_status v = (if 1000 < v_expiresAt v then ''Active'' else ''Expired''))"
    using status_derived_from_expiry [of viem0 1000 list_remote_down db_AB addr_A] l1 by simp
  have s2: "fst (listDelegations viem0 5000 list_remote_down db_AB addr_A) = db_AB \<and>
      (\<forall>v \<in> set (memoryViews 5000 db_AB addr_A).
         v_status v = (if 5000 < v_expiresAt v then ''Active'' else ''Expired''))"
    using status_derived_from_expiry [of viem0 5000 list_remote_down db_AB addr_A] l2 by simp
  from s1 s2 l1 l2 show ?thesis
    by (simp add: memoryViews_db_AB memoryViews_db_AB_later stored_AB_def)
qed

theorem status_ignores_isActive_counterexample:
  "isAddress viem0 addr_A \<and> \<not> p_isActive plan_inactive \<and> 1000 < p_expiresAt plan_inactive \<and>
   listDelegations viem0 1000 list_remote_inactive [] addr_A =
     ([], [RemoteGetActiveDelegations addr_A],
      \<lparr>lr_status = 200, lr_success = True, lr_message = None,
       lr_delegations =
         [\<lparr>v_contractAddr = addr_B, v_expiresAt = 4600, v_expiresIn = ''1h 0m'',
           v_status = ''Active'', v_description = Some ''test'', v_addedAt = 1000,
           v_isActive = Some False\<rparr>],
       lr_source = Some ''contract'', lr_total = 1, lr_active = 1, lr_expired = 0\<rparr>)"
proof -
  have r: "ls_smartGuardContract list_remote_inactive"
    "ls_getActiveDelegations list_remote_inactive = Inr [plan_inactive]"
    by (simp_all add: list_remote_inactive_def)
  have p: "\<not> p_isActive plan_inactive" "1000 < p_expiresAt plan_inactive"
    by (simp_all add: plan_inactive_def)
  have "listDelegations viem0 1000 list_remote_inactive [] addr_A =
     ([], [RemoteGetActiveDelegations addr_A],
      \<lparr>lr_status = 200, lr_success = True, lr_message = None,
       lr_delegations =
         [\<lparr>v_contractAddr = addr_B, v_expiresAt = 4600, v_expiresIn = ''1h 0m'',
           v_status = ''Active'', v_description = Some ''test'', v_addedAt = 1000,
           v_isActive = Some False\<rparr>],
       lr_source = Some ''contract'', lr_total = 1, lr_active = 1, lr_expired = 0\<rparr>)"
    using listDelegations_remote_success [OF isAddress_samples(2) r, of 1000 "[]"]
    by (simp add: contractViews_plan_inactive)
  with p show ?thesis
    by (simp add: isAddress_samples)
qed

lemma max_duration_days:
  "show_int (MAX_DELEGATION_DURATION div (24 * 60 * 60)) = ''30''"
  by (simp add: MAX_DELEGATION_DURATION_def show_int_def show_nat.simps digit_def)

lemma validateDelegationParams_eq:
  "validateDelegationParams lib now user contract (now + d) =
     (if isAddress lib user then [] else [''Invalid user address'']) @
     (if isAddress lib contract then [] else [''Invalid contract address'']) @
     (if d \<le> 0 then [''Expiration must be in the future''] else []) @
     (if d > 30 * 24 * 60 * 60 then [''Delegation duration cannot exceed 30 days''] else [])"
  unfolding validateDelegationParams_def isValidAddress_def max_duration_days Let_def
  by (simp add: MAX_DELEGATION_DURATION_def)

text \<open>
  Claim C4, as amended. \<open>validateDelegationParams\<close> returns the list of all the
  constraints that are violated, in order and without stopping at the first: an invalid
  user address, an invalid contract address, an expiry that is not after the current time
  (so a duration of 0 seconds is rejected) and an expiry more than 30 days ahead. For valid
  addresses it returns no error exactly for the durations from 1 second to 30 days, both
  included, so exactly 1 hour and exactly 30 days are accepted. It does not read
  \<open>MIN_DELEGATION_DURATION\<close>: no minimum of one hour is enforced. The counterexample to
  the claim as stated is a duration of one second, which passes the validation, and the
  add route, which answers success for a duration of 0.
\<close>

theorem validateDelegationParams_accumulates:
  "validateDelegationParams lib now user contract (now + d) =
     (if isAddress lib user then [] else [''Invalid user address'']) @
     (if isAddress lib contract then [] else [''Invalid contract address'']) @
     (if d \<le> 0 then [''Expiration must be in the future''] else []) @
     (if d > 30 * 24 * 60 * 60 then [''Delegation duration cannot exceed 30 days''] else []) \<and>
   (isAddress lib user \<and> isAddress lib contract \<longrightarrow>
      (validateDelegationParams lib now user contract (now + d) = [] \<longleftrightarrow>
         0 < d \<and> d \<le> 30 * 24 * 60 * 60))"
  by (simp add: validateDelegationParams_eq)

theorem validateDelegationParams_accumulates_witness:
  "validateDelegationParams viem0 1000 addr_A addr_B (1000 + 0) =
     [''Expiration must be in the future''] \<and>
   validateDelegationParams viem0 1000 addr_A addr_B (1000 + (30 * 24 * 60 * 60 + 1)) =
     [''Delegation duration cannot exceed 30 days''] \<and>
   validateDelegationParams viem0 1000 ''0x12'' ''zz'' (1000 + 0) =
     [''Invalid user address'', ''Invalid contract address'',
      ''Expiration must be in the future''] \<and>
   validateDelegationParams viem0 1000 addr_A addr_B (1000 + 60 * 60) = [] \<and>
   validateDelegationParams viem0 1000 addr_A addr_B (1000 + 30 * 24 * 60 * 60) = []"
proof -
  have bad: "\<not> isAddress viem0 ''0x12''" "\<not> isAddress viem0 ''zz''"
    by (simp_all add: viem0_def)
  have 1: "validateDelegationParams viem0 1000 addr_A addr_B (1000 + 0) =
     [''Expiration must be in the future'']"
    using validateDelegationParams_accumulates [of viem0 1000 addr_A addr_B 0]
    by (simp add: isAddress_samples)
  have 2: "validateDelegationParams viem0 1000 addr_A addr_B (1000 + (30 * 24 * 60 * 60 + 1)) =
     [''Delegation duration cannot exceed 30 days'']"
    using validateDelegationParams_accumulates [of viem0 1000 addr_A addr_B "30 * 24 * 60 * 60 + 1"]
    by (simp add: isAddress_samples)
  have 3: "validateDelegationParams viem0 1000 ''0x12'' ''zz'' (1000 + 0) =
     [''Invalid user address'', ''Invalid contract address'',
      ''Expiration must be in the future'']"
    using validateDelegationParams_accumulates [of viem0 1000 "''0x12''" "''zz''" 0] bad
    by simp
  have 4: "validateDelegationParams viem0 1000 addr_A addr_B (1000 + 60 * 60) = []"
    using validateDelegationParams_accumulates [of viem0 1000 addr_A addr_B "60 * 60"]
    by (simp add: isAddress_samples)
  have 5: "validateDelegationParams viem0 1000 addr_A addr_B (1000 + 30 * 24 * 60 * 60) = []"
    using validateDelegationParams_accumulates [of viem0 1000 addr_A addr_B "30 * 24 * 60 * 60"]
    by (simp add: isAddress_samples)
  from 1 2 3 4 5 show ?thesis by blast
qed

theorem no_minimum_duration_counterexample:
  "(1 :: int) < MIN_DELEGATION_DURATION \<and>
   validateDelegationParams viem0 1000 addr_A addr_B (1000 + 1) = [] \<and>
   r_duration add_request_zero = 0 \<and>
   snd (snd (addDelegation 1000 add_remote_failing [] add_request_zero)) =
     \<lparr>ar_status = 200, ar_success = True, ar_message = ''Delegation added successfully'',
      ar_delegation =
        Some \<lparr>v_contractAddr = addr_B, v_expiresAt = 1000, v_expiresIn = ''0h'',
              v_status = ''Active'', v_description = None, v_addedAt = 1000,
              v_isActive = None\<rparr>\<rparr>"
proof -
  have 1: "(1 :: int) < MIN_DELEGATION_DURATION"
    by (simp add: MIN_DELEGATION_DURATION_def)
  have 2: "validateDelegationParams viem0 1000 addr_A addr_B (1000 + 1) = []"
    using validateDelegationParams_eq [of viem0 1000 addr_A addr_B 1]
    by (simp add: isAddress_samples)
  have 3: "snd (snd (addDelegation 1000 add_remote_failing [] add_request_zero)) =
     \<lparr>ar_status = 200, ar_success = True, ar_message = ''Delegation added successfully'',
      ar_delegation =
        Some \<lparr>v_contractAddr = addr_B, v_expiresAt = 1000, v_expiresIn = ''0h'',
              v_status = ''Active'', v_description = None, v_addedAt = 1000,
              v_isActive = None\<rparr>\<rparr>"
    by (simp add: addDelegation_def add_request_zero_def add_remote_failing_def Let_def
        show_int_def show_nat.simps digit_def addr_A_def addr_B_def)
  from 1 2 3 show ?thesis
    by (simp add: add_request_zero_def)
qed

end
